theory Spec2Isabelle
  imports Main
begin

section \<open>Python values that travel through the agent and the adapter\<close>

text \<open>
  The chunks that \<^verbatim>\<open>ask_stream\<close> yields and that the OpenAI adapter encodes are Python
  strings and dictionaries built from strings, integers, lists and dictionaries. They are
  modelled by one datatype of JSON-shaped values. A dictionary is an association list in
  insertion order (the order \<^verbatim>\<open>json.dumps\<close> prints); a well-formed dictionary has
  distinct keys. A \<open>char\<close> stands for one code point below 256. A float is carried as the
  text that \<^verbatim>\<open>float.__repr__\<close> gives for it, which is all that \<^verbatim>\<open>json.dumps\<close> reads.
\<close>

datatype json =
    JNull
  | JBool bool
  | JInt int
  | JFloat string
  | JStr string
  | JList "json list"
  | JDict "(string \<times> json) list"

text \<open>Python truthiness, as used by \<^verbatim>\<open>x or default\<close>.\<close>

fun truthy :: "json \<Rightarrow> bool" where
  "truthy JNull = False"
| "truthy (JBool b) = b"
| "truthy (JInt i) = (i \<noteq> 0)"
| "truthy (JFloat r) = (r \<noteq> ''0.0'' \<and> r \<noteq> ''-0.0'')"
| "truthy (JStr s) = (s \<noteq> [])"
| "truthy (JList xs) = (xs \<noteq> [])"
| "truthy (JDict kvs) = (kvs \<noteq> [])"

subsection \<open>Dictionaries\<close>

text \<open>\<^verbatim>\<open>k in d\<close>, \<^verbatim>\<open>d.get(k)\<close> and \<^verbatim>\<open>d[k] = v\<close> on insertion-ordered dictionaries.\<close>

definition dict_has :: "(string \<times> json) list \<Rightarrow> string \<Rightarrow> bool" where
  "dict_has d k = (k \<in> set (map fst d))"

definition dict_get :: "(string \<times> json) list \<Rightarrow> string \<Rightarrow> json option" where
  "dict_get d k = map_of d k"

fun dict_set :: "string \<Rightarrow> json \<Rightarrow> (string \<times> json) list \<Rightarrow> (string \<times> json) list" where
  "dict_set k v [] = [(k, v)]"
| "dict_set k v (p # ps) = (if fst p = k then (k, v) # ps else p # dict_set k v ps)"

text \<open>\<^verbatim>\<open>{**a, **b}\<close>: the keys of \<open>a\<close> in their order, then \<open>b\<close>'s own; \<open>b\<close>'s values win.\<close>

fun dict_merge :: "(string \<times> json) list \<Rightarrow> (string \<times> json) list \<Rightarrow> (string \<times> json) list" where
  "dict_merge a [] = a"
| "dict_merge a (p # ps) = dict_merge (dict_set (fst p) (snd p) a) ps"

subsection \<open>Strings\<close>

text \<open>\<^verbatim>\<open>sep.join(parts)\<close>.\<close>

fun join :: "string \<Rightarrow> string list \<Rightarrow> string" where
  "join sep [] = []"
| "join sep [x] = x"
| "join sep (x # y # ys) = x @ sep @ join sep (y # ys)"

text \<open>
  \<^verbatim>\<open>str.strip()\<close> removes leading and trailing white space. Below 256 the code points
  that \<^verbatim>\<open>str.isspace\<close> accepts are 9 to 13, 28 to 32, 133 and 160.
\<close>

definition is_space :: "char \<Rightarrow> bool" where
  "is_space c = (let n = (of_char c :: nat) in
     (9 \<le> n \<and> n \<le> 13) \<or> (28 \<le> n \<and> n \<le> 32) \<or> n = 133 \<or> n = 160)"

definition lstrip :: "string \<Rightarrow> string" where
  "lstrip s = dropWhile is_space s"

definition rstrip :: "string \<Rightarrow> string" where
  "rstrip s = rev (dropWhile is_space (rev s))"

definition strip :: "string \<Rightarrow> string" where
  "strip s = rstrip (lstrip s)"

subsection \<open>\<^verbatim>\<open>json.dumps\<close>\<close>

text \<open>
  The encoder with its defaults: \<^verbatim>\<open>ensure_ascii=True\<close>, separators \<^verbatim>\<open>", "\<close> and
  \<^verbatim>\<open>": "\<close>. A string is quoted; backslash, double quote and the five short escapes are
  written with a backslash, every other code point outside \<^verbatim>\<open>' '..'~'\<close> as
  \<^verbatim>\<open>\u00xx\<close>.
\<close>

definition hex_digit :: "nat \<Rightarrow> char" where
  "hex_digit n = ''0123456789abcdef'' ! (n mod 16)"

definition escape_char :: "char \<Rightarrow> string" where
  "escape_char c =
    (if c = CHR 0x5C then [CHR 0x5C, CHR 0x5C]
     else if c = CHR 0x22 then [CHR 0x5C, CHR 0x22]
     else if c = CHR 0x08 then [CHR 0x5C, CHR ''b'']
     else if c = CHR 0x0C then [CHR 0x5C, CHR ''f'']
     else if c = CHR 0x0A then [CHR 0x5C, CHR ''n'']
     else if c = CHR 0x0D then [CHR 0x5C, CHR ''r'']
     else if c = CHR 0x09 then [CHR 0x5C, CHR ''t'']
     else (let n = (of_char c :: nat) in
       if 32 \<le> n \<and> n \<le> 126 then [c]
       else [CHR 0x5C, CHR ''u'', CHR ''0'', CHR ''0'', hex_digit (n div 16), hex_digit n]))"

definition dumps_str :: "string \<Rightarrow> string" where
  "dumps_str s = [CHR 0x22] @ concat (map escape_char s) @ [CHR 0x22]"

fun nat_str :: "nat \<Rightarrow> string" where
  "nat_str n = (if n < 10 then [''0123456789'' ! n]
                else nat_str (n div 10) @ [''0123456789'' ! (n mod 10)])"

definition int_str :: "int \<Rightarrow> string" where
  "int_str i = (if i < 0 then CHR ''-'' # nat_str (nat (- i)) else nat_str (nat i))"

fun dumps :: "json \<Rightarrow> string" where
  "dumps JNull = ''null''"
| "dumps (JBool b) = (if b then ''true'' else ''false'')"
| "dumps (JInt i) = int_str i"
| "dumps (JFloat r) = r"
| "dumps (JStr s) = dumps_str s"
| "dumps (JList xs) = ''['' @ join '', '' (map dumps xs) @ '']''"
| "dumps (JDict kvs) =
     ''{'' @ join '', '' (map (\<lambda>kv. dumps_str (fst kv) @ '': '' @ dumps (snd kv)) kvs) @ ''}''"

text \<open>
  \<^verbatim>\<open>json.dumps(x, indent=2)\<close>: an empty list or dictionary stays on one line, a non-empty
  one puts each item on a line of its own, indented two spaces per level.
\<close>

fun dumps_indent :: "nat \<Rightarrow> json \<Rightarrow> string" where
  "dumps_indent lvl (JList xs) =
     (if xs = [] then ''[]''
      else ''['' @ [CHR 0x0A] @ replicate (2 * Suc lvl) CHR '' ''
        @ join ('','' @ [CHR 0x0A] @ replicate (2 * Suc lvl) CHR '' '')
            (map (dumps_indent (Suc lvl)) xs)
        @ [CHR 0x0A] @ replicate (2 * lvl) CHR '' '' @ '']'')"
| "dumps_indent lvl (JDict kvs) =
     (if kvs = [] then ''{}''
      else ''{'' @ [CHR 0x0A] @ replicate (2 * Suc lvl) CHR '' ''
        @ join ('','' @ [CHR 0x0A] @ replicate (2 * Suc lvl) CHR '' '')
            (map (\<lambda>kv. dumps_str (fst kv) @ '': '' @ dumps_indent (Suc lvl) (snd kv)) kvs)
        @ [CHR 0x0A] @ replicate (2 * lvl) CHR '' '' @ ''}'')"
| "dumps_indent lvl v = dumps v"

section \<open>The OpenAI adapter (\<^verbatim>\<open>openai_adapter.py\<close>)\<close>

text \<open>
  \<^verbatim>\<open>_base_payload(model)\<close>. The random identifier (\<^verbatim>\<open>uuid.uuid4().hex\<close>) and the clock
  (\<^verbatim>\<open>int(time.time())\<close>) are inputs.
\<close>

definition base_payload :: "string \<Rightarrow> int \<Rightarrow> string \<Rightarrow> (string \<times> json) list" where
  "base_payload uid now model =
     [(''id'', JStr (''chatcmpl-'' @ uid)),
      (''object'', JStr ''chat.completion''),
      (''created'', JInt now),
      (''model'', JStr model)]"

text \<open>
  The body of the loop of \<^verbatim>\<open>async_sse_chat_completions\<close>: the payload built for one
  chunk. A dictionary with a \<^verbatim>\<open>choices\<close> key is merged onto the envelope; any other
  dictionary gives its \<^verbatim>\<open>delta\<close> and \<^verbatim>\<open>finish_reason\<close> to a fresh choice; anything else
  becomes the \<^verbatim>\<open>content\<close> of the delta.
\<close>

definition chunk_choice :: "json \<Rightarrow> (string \<times> json) list" where
  "chunk_choice chunk =
    (case chunk of
       JDict d \<Rightarrow>
         (let delta = (case dict_get d ''delta'' of None \<Rightarrow> JDict [] | Some v \<Rightarrow> v);
              choice = dict_set ''delta'' (if delta \<noteq> JNull then delta else JDict [])
                         [(''index'', JInt 0), (''delta'', JDict []), (''finish_reason'', JNull)]
          in if dict_has d ''finish_reason''
             then dict_set ''finish_reason''
                    (case dict_get d ''finish_reason'' of None \<Rightarrow> JNull | Some v \<Rightarrow> v) choice
             else choice)
     | _ \<Rightarrow>
         dict_set ''delta'' (JDict [(''content'', chunk)])
           [(''index'', JInt 0), (''delta'', JDict []), (''finish_reason'', JNull)])"

definition chunk_payload :: "(string \<times> json) list \<Rightarrow> json \<Rightarrow> (string \<times> json) list" where
  "chunk_payload base chunk =
    (case chunk of
       JDict d \<Rightarrow>
         if dict_has d ''choices'' then dict_merge base d
         else dict_set ''choices'' (JList [JDict (chunk_choice chunk)])
                (dict_set ''object'' (JStr ''chat.completion.chunk'') base)
     | _ \<Rightarrow>
         dict_set ''choices'' (JList [JDict (chunk_choice chunk)])
           (dict_set ''object'' (JStr ''chat.completion.chunk'') base))"

definition sse_frame :: "(string \<times> json) list \<Rightarrow> string" where
  "sse_frame payload = ''data: '' @ dumps (JDict payload) @ [CHR 0x0A, CHR 0x0A]"

definition done_frame :: string where
  "done_frame = ''data: [DONE]'' @ [CHR 0x0A, CHR 0x0A]"

definition async_sse_chat_completions :: "string \<Rightarrow> int \<Rightarrow> json list \<Rightarrow> string \<Rightarrow> string list" where
  "async_sse_chat_completions uid now chunks model =
     (let base = base_payload uid now model
      in map (\<lambda>chunk. sse_frame (chunk_payload base chunk)) chunks @ [done_frame])"

section \<open>The agent (\<^verbatim>\<open>agent.py\<close>)\<close>

subsection \<open>What the provider and the tool executor send\<close>

text \<open>
  The provider's objects are read by attribute probing (\<^verbatim>\<open>getattr(x, "text", None)\<close>,
  \<^verbatim>\<open>hasattr(x, "thinking")\<close>), so an attribute that may be missing or \<^verbatim>\<open>None\<close> is an
  option; for \<^verbatim>\<open>thinking\<close>, whose presence alone is tested, the outer option says whether
  the attribute exists. A missing \<^verbatim>\<open>content_block\<close> or \<^verbatim>\<open>delta\<close> of an event is \<open>None\<close>.
\<close>

record content_block =
  cb_type :: "string option"
  cb_text :: "string option"
  cb_id :: string
  cb_name :: string
  cb_input :: json

record delta =
  d_type :: "string option"
  d_text :: "string option"
  d_thinking :: "string option option"

record event =
  ev_type :: string
  ev_index :: int
  ev_content_block :: "content_block option"
  ev_delta :: "delta option"

record tool_result =
  tr_type :: string
  tool_use_id :: string
  tr_content :: string

datatype msg_content =
    TextContent string
  | BlockContent "content_block list"
  | ResultContent "tool_result list"

record message =
  role :: string
  content :: msg_content

record tool_definition =
  name :: string
  description :: string
  input_schema :: json

definition to_anthropic :: "tool_definition \<Rightarrow> json" where
  "to_anthropic t =
     JDict [(''name'', JStr (name t)), (''description'', JStr (description t)),
            (''input_schema'', input_schema t)]"

datatype error = ProviderError string | ToolExecutorError string | DecoderError string

text \<open>
  One provider round: the events of the stream, the exception that ends the stream early
  (if any), and the answer of \<^verbatim>\<open>get_final_message()\<close>.
\<close>

record stream_reply =
  events :: "event list"
  stream_error :: "error option"
  final_message :: "error + content_block list"

text \<open>
  The collaborators outside the repository. The provider and the MCP server are stateful:
  every call takes the state \<open>'w\<close> of the outside world and returns the next one.
  \<^verbatim>\<open>messages_stream\<close> receives the tool list and the conversation; the other request
  arguments are fixed per agent.

  \<^verbatim>\<open>loads\<close> is \<^verbatim>\<open>json.loads\<close> on a string. It returns the decoded value, or raises
  \<^verbatim>\<open>JSONDecodeError\<close>, or raises something else (\<^verbatim>\<open>RecursionError\<close> on a deeply nested
  text, \<^verbatim>\<open>ValueError\<close> on an integer literal with too many digits). The agent catches the
  first kind of exception only, so the two are kept apart.
\<close>

datatype loads_result = Parsed json | JSONDecodeError | LoadsRaised error

record 'w env =
  list_tools :: "'w \<Rightarrow> (error + tool_definition list) \<times> 'w"
  messages_stream :: "'w \<Rightarrow> json list \<Rightarrow> message list \<Rightarrow> stream_reply \<times> 'w"
  call_tool :: "'w \<Rightarrow> string \<Rightarrow> json \<Rightarrow> (error + string) \<times> 'w"
  loads :: "string \<Rightarrow> loads_result"

subsection \<open>Reading one event\<close>

record round_state =
  block_types :: "int \<Rightarrow> string option option"
  rs_thinking :: "string list"
  tool_requests :: "content_block list"
  rs_yielded :: "json list"

definition content_delta :: "string \<Rightarrow> json" where
  "content_delta s = JDict [(''delta'', JDict [(''content'', JStr s)])]"

definition thinking_delta :: "string \<Rightarrow> json" where
  "thinking_delta s = JDict [(''delta'', JDict [(''thinking'', JStr s), (''content'', JStr s)])]"

definition block_type_of :: "content_block option \<Rightarrow> string option" where
  "block_type_of cb = (case cb of None \<Rightarrow> None | Some b \<Rightarrow> cb_type b)"

definition delta_text_of :: "delta option \<Rightarrow> string" where
  "delta_text_of d =
    (let t = (case d of None \<Rightarrow> [] | Some x \<Rightarrow> (case d_text x of None \<Rightarrow> [] | Some s \<Rightarrow> s))
     in if t = [] then
          (case d of None \<Rightarrow> []
           | Some x \<Rightarrow> (case d_thinking x of Some (Some s) \<Rightarrow> s | _ \<Rightarrow> []))
        else t)"

definition has_thinking :: "delta option \<Rightarrow> bool" where
  "has_thinking d = (case d of None \<Rightarrow> False | Some x \<Rightarrow> d_thinking x \<noteq> None)"

definition delta_type_of :: "delta option \<Rightarrow> string option" where
  "delta_type_of d = (case d of None \<Rightarrow> None | Some x \<Rightarrow> d_type x)"

definition tool_args :: "content_block \<Rightarrow> json" where
  "tool_args b = (if truthy (cb_input b) then cb_input b else JDict [])"

definition tool_call_delta :: "content_block \<Rightarrow> json" where
  "tool_call_delta b =
     JDict [(''delta'', JDict [(''tool_calls'', JList [
       JDict [(''id'', JStr (cb_id b)),
              (''type'', JStr ''function''),
              (''function'', JDict [(''name'', JStr (cb_name b)),
                                    (''arguments'', JStr (dumps (tool_args b)))])]])])]"

definition on_block_start :: "bool \<Rightarrow> event \<Rightarrow> round_state \<Rightarrow> round_state" where
  "on_block_start stream_mode ev rs =
    (if ev_type ev = ''content_block_start'' then
       (let rs1 = rs\<lparr>block_types := (block_types rs)(ev_index ev := Some (block_type_of (ev_content_block ev)))\<rparr>
        in if block_types rs1 (ev_index ev) = Some (Some ''thinking'') \<and> stream_mode
           then rs1\<lparr>rs_yielded := rs_yielded rs1 @ [content_delta (''**Thoughts:**'' @ [CHR 0x0A])]\<rparr>
           else rs1)
     else rs)"

definition on_block_delta :: "bool \<Rightarrow> event \<Rightarrow> round_state \<Rightarrow> round_state" where
  "on_block_delta stream_mode ev rs =
    (if ev_type ev = ''content_block_delta'' then
       (let delta_text = delta_text_of (ev_delta ev)
        in if delta_text \<noteq> [] then
             (let is_thinking =
                    (block_types rs (ev_index ev) = Some (Some ''thinking'')
                     \<or> has_thinking (ev_delta ev)
                     \<or> delta_type_of (ev_delta ev) = Some ''thinking_delta'')
              in if is_thinking then
                   (let rs1 = rs\<lparr>rs_thinking := rs_thinking rs @ [delta_text]\<rparr>
                    in if stream_mode
                       then rs1\<lparr>rs_yielded := rs_yielded rs1 @ [thinking_delta delta_text]\<rparr>
                       else rs1)
                 else if stream_mode
                   then rs\<lparr>rs_yielded := rs_yielded rs @ [content_delta delta_text]\<rparr>
                   else rs)
           else rs)
     else rs)"

definition on_block_stop :: "bool \<Rightarrow> event \<Rightarrow> round_state \<Rightarrow> round_state" where
  "on_block_stop stream_mode ev rs =
    (if ev_type ev = ''content_block_stop'' \<and> stream_mode then
       (let rs1 = (if block_types rs (ev_index ev) = Some (Some ''thinking'')
                   then rs\<lparr>rs_yielded := rs_yielded rs
                          @ [content_delta ([CHR 0x0A, CHR 0x0A] @ ''---'' @ [CHR 0x0A, CHR 0x0A])]\<rparr>
                   else rs)
        in rs1\<lparr>rs_yielded := rs_yielded rs1 @ [content_delta [CHR 0x0A]]\<rparr>)
     else rs)"

definition on_tool_use_stop :: "bool \<Rightarrow> event \<Rightarrow> round_state \<Rightarrow> round_state" where
  "on_tool_use_stop stream_mode ev rs =
    (if ev_type ev = ''content_block_stop''
        \<and> block_type_of (ev_content_block ev) = Some ''tool_use'' then
       (case ev_content_block ev of
          None \<Rightarrow> rs
        | Some b \<Rightarrow>
            (let rs1 = rs\<lparr>tool_requests := tool_requests rs @ [b]\<rparr>
             in if stream_mode
                then rs1\<lparr>rs_yielded := rs_yielded rs1 @ [tool_call_delta b]\<rparr>
                else rs1))
     else rs)"

text \<open>The four \<^verbatim>\<open>if\<close> statements of the loop body, in the source's order.\<close>

definition on_event :: "bool \<Rightarrow> event \<Rightarrow> round_state \<Rightarrow> round_state" where
  "on_event stream_mode ev rs =
     on_tool_use_stop stream_mode ev
       (on_block_stop stream_mode ev
         (on_block_delta stream_mode ev
           (on_block_start stream_mode ev rs)))"

fun on_events :: "bool \<Rightarrow> event list \<Rightarrow> round_state \<Rightarrow> round_state" where
  "on_events stream_mode [] rs = rs"
| "on_events stream_mode (ev # evs) rs = on_events stream_mode evs (on_event stream_mode ev rs)"

subsection \<open>The state of one request\<close>

record 'w agent_state =
  world :: 'w
  conversation :: "message list"
  answer_parts :: "string list"
  thinking_parts :: "string list"
  yielded :: "json list"

datatype outcome = Returned | Raised error

subsection \<open>Calling the tools of a round\<close>

definition calling_log :: "string \<Rightarrow> string \<Rightarrow> string" where
  "calling_log tool_name args =
     [CHR 0x0A, CHR 0x0A] @ ''Calling `'' @ tool_name @ ''` with args:'' @ [CHR 0x0A]
       @ ''```json'' @ [CHR 0x0A] @ args @ [CHR 0x0A] @ ''```''"

definition result_log :: "string \<Rightarrow> string \<Rightarrow> string" where
  "result_log tool_name output =
     [CHR 0x0A, CHR 0x0A] @ ''Result from `'' @ tool_name @ ''`:'' @ [CHR 0x0A]
       @ ''```json'' @ [CHR 0x0A] @ output @ [CHR 0x0A] @ ''```'' @ [CHR 0x0A]"

text \<open>
  The \<^verbatim>\<open>try\<close> statement around \<^verbatim>\<open>json.loads(tool_output)\<close>. Its handler is
  \<^verbatim>\<open>except (TypeError, json.JSONDecodeError)\<close>: on these \<^verbatim>\<open>parsed_tool_output\<close> is the raw
  string (\<^verbatim>\<open>TypeError\<close> does not arise, the output being a string); any other exception
  of \<^verbatim>\<open>json.loads\<close> leaves the generator. \<^verbatim>\<open>rendered_output\<close> prints the parsed value
  again unless it is a string.
\<close>

definition parse_tool_output :: "(string \<Rightarrow> loads_result) \<Rightarrow> string \<Rightarrow> error + json" where
  "parse_tool_output lds tool_output =
     (case lds tool_output of
        Parsed v \<Rightarrow> Inr v
      | JSONDecodeError \<Rightarrow> Inr (JStr tool_output)
      | LoadsRaised e \<Rightarrow> Inl e)"

definition rendered_output :: "json \<Rightarrow> string" where
  "rendered_output parsed = (case parsed of JStr s \<Rightarrow> s | _ \<Rightarrow> dumps parsed)"

definition tool_result_delta :: "content_block \<Rightarrow> string \<Rightarrow> json" where
  "tool_result_delta tool_use rendered =
     JDict [(''delta'', JDict [(''role'', JStr ''tool''),
                               (''tool_call_id'', JStr (cb_id tool_use)),
                               (''content'', JStr (result_log (cb_name tool_use) rendered))])]"

definition make_tool_result :: "content_block \<Rightarrow> string \<Rightarrow> tool_result" where
  "make_tool_result tool_use tool_output =
     \<lparr>tr_type = ''tool_result'', tool_use_id = cb_id tool_use,
      tr_content = (if tool_output \<noteq> [] then tool_output else ''No content returned by tool.'')\<rparr>"

text \<open>
  The body of the \<^verbatim>\<open>for tool_use in tool_requests\<close> loop, before the call of the tool
  and after its output is parsed: the log entries that are yielded and kept for the
  collected answer.
\<close>

definition log_call :: "bool \<Rightarrow> bool \<Rightarrow> content_block \<Rightarrow> 'w agent_state \<Rightarrow> 'w agent_state" where
  "log_call stream_mode include_tool_logs tool_use st =
    (let st1 = (if stream_mode \<and> include_tool_logs
                then st\<lparr>yielded := yielded st
                       @ [JStr (calling_log (cb_name tool_use) (dumps (tool_args tool_use)))]\<rparr>
                else st)
     in if include_tool_logs
        then st1\<lparr>answer_parts := answer_parts st1
               @ [calling_log (cb_name tool_use) (dumps_indent 0 (tool_args tool_use))]\<rparr>
        else st1)"

definition log_result :: "bool \<Rightarrow> bool \<Rightarrow> content_block \<Rightarrow> string \<Rightarrow> json
    \<Rightarrow> 'w agent_state \<Rightarrow> 'w agent_state" where
  "log_result stream_mode include_tool_logs tool_use tool_output parsed_tool_output st =
    (let st1 = (if stream_mode \<and> tool_output \<noteq> [] \<and> include_tool_logs
                then st\<lparr>yielded := yielded st
                       @ [tool_result_delta tool_use (rendered_output parsed_tool_output)]\<rparr>
                else st)
     in if include_tool_logs
        then st1\<lparr>answer_parts := answer_parts st1
               @ [result_log (cb_name tool_use) tool_output]\<rparr>
        else st1)"

text \<open>
  The loop itself. An exception of \<^verbatim>\<open>call_tool\<close> leaves it at once, with what was
  yielded so far, and so does an exception of \<^verbatim>\<open>json.loads\<close> that the handler does not
  catch; a \<^verbatim>\<open>JSONDecodeError\<close> does not.
\<close>

fun run_tools :: "'w env \<Rightarrow> bool \<Rightarrow> bool \<Rightarrow> content_block list \<Rightarrow> tool_result list
    \<Rightarrow> 'w agent_state \<Rightarrow> (error + tool_result list) \<times> 'w agent_state" where
  "run_tools env stream_mode include_tool_logs [] tool_results st = (Inr tool_results, st)"
| "run_tools env stream_mode include_tool_logs (tool_use # rest) tool_results st =
    (let st1 = log_call stream_mode include_tool_logs tool_use st
     in case call_tool env (world st1) (cb_name tool_use) (tool_args tool_use) of
          (Inl e, w) \<Rightarrow> (Inl e, st1\<lparr>world := w\<rparr>)
        | (Inr tool_output, w) \<Rightarrow>
            (case parse_tool_output (loads env) tool_output of
               Inl e \<Rightarrow> (Inl e, st1\<lparr>world := w\<rparr>)
             | Inr parsed_tool_output \<Rightarrow>
                 run_tools env stream_mode include_tool_logs rest
                   (tool_results @ [make_tool_result tool_use tool_output])
                   (log_result stream_mode include_tool_logs tool_use tool_output
                      parsed_tool_output (st1\<lparr>world := w\<rparr>))))"

subsection \<open>One round of the loop\<close>

text \<open>
  The two comprehensions over \<^verbatim>\<open>final_message.content\<close>: the truthy \<^verbatim>\<open>text\<close> of the
  blocks whose type is not (respectively is) \<^verbatim>\<open>"thinking"\<close>.
\<close>

definition block_text :: "content_block \<Rightarrow> string" where
  "block_text b = (case cb_text b of None \<Rightarrow> [] | Some t \<Rightarrow> t)"

definition text_blocks :: "content_block list \<Rightarrow> string list" where
  "text_blocks blocks =
     map block_text
       (filter (\<lambda>b. block_text b \<noteq> [] \<and> cb_type b \<noteq> Some ''thinking'') blocks)"

definition thinking_blocks :: "content_block list \<Rightarrow> string list" where
  "thinking_blocks blocks =
     map block_text
       (filter (\<lambda>b. block_text b \<noteq> [] \<and> cb_type b = Some ''thinking'') blocks)"

text \<open>
  The body of \<^verbatim>\<open>while True\<close>: \<open>Next\<close> when the loop goes round again, \<open>Break\<close> when it
  reaches \<^verbatim>\<open>break\<close>, \<open>Abort\<close> when an exception leaves the generator.
\<close>

datatype 'w step = Next "'w agent_state" | Break "'w agent_state" | Abort error "'w agent_state"

definition round_events :: "bool \<Rightarrow> event list \<Rightarrow> 'w agent_state \<Rightarrow> round_state" where
  "round_events stream_mode evs st =
     on_events stream_mode evs
       \<lparr>block_types = (\<lambda>_. None), rs_thinking = thinking_parts st,
        tool_requests = [], rs_yielded = yielded st\<rparr>"

text \<open>The request state once the stream's events are read, and once the final message
  is booked: the assistant message appended, its text and thinking blocks collected.\<close>

definition after_stream :: "bool \<Rightarrow> event list \<Rightarrow> 'w \<Rightarrow> 'w agent_state \<Rightarrow> 'w agent_state" where
  "after_stream stream_mode evs w st =
    (let rs = round_events stream_mode evs st
     in st\<lparr>world := w, thinking_parts := rs_thinking rs, yielded := rs_yielded rs\<rparr>)"

definition after_final_message :: "content_block list \<Rightarrow> 'w agent_state \<Rightarrow> 'w agent_state" where
  "after_final_message blocks st =
     st\<lparr>conversation := conversation st @ [\<lparr>role = ''assistant'', content = BlockContent blocks\<rparr>],
        answer_parts := answer_parts st @ text_blocks blocks,
        thinking_parts := thinking_parts st @ thinking_blocks blocks\<rparr>"

definition after_tools :: "tool_result list \<Rightarrow> 'w agent_state \<Rightarrow> 'w agent_state" where
  "after_tools tool_results st =
     st\<lparr>conversation := conversation st @ [\<lparr>role = ''user'', content = ResultContent tool_results\<rparr>]\<rparr>"

definition round_step :: "'w env \<Rightarrow> bool \<Rightarrow> bool \<Rightarrow> json list \<Rightarrow> 'w agent_state \<Rightarrow> 'w step" where
  "round_step env stream_mode include_tool_logs tools st =
    (case messages_stream env (world st) tools (conversation st) of (reply, w) \<Rightarrow>
      (let st1 = after_stream stream_mode (events reply) w st
       in case stream_error reply of
            Some e \<Rightarrow> Abort e st1
          | None \<Rightarrow>
             (case final_message reply of
                Inl e \<Rightarrow> Abort e st1
              | Inr blocks \<Rightarrow>
                 (let st2 = after_final_message blocks st1
                  in if tool_requests (round_events stream_mode (events reply) st) = []
                     then Break st2
                     else
                      (case run_tools env stream_mode include_tool_logs
                              (tool_requests (round_events stream_mode (events reply) st)) [] st2 of
                         (Inl e, st3) \<Rightarrow> Abort e st3
                       | (Inr tool_results, st3) \<Rightarrow> Next (after_tools tool_results st3))))))"

subsection \<open>The loop and the final pieces\<close>

definition final_answer :: "string list \<Rightarrow> string list \<Rightarrow> string" where
  "final_answer thinking answer =
    (let final_sections =
           (if thinking \<noteq> []
            then [''**Thoughts:**'' @ [CHR 0x0A, CHR 0x0A] @ concat thinking
                  @ [CHR 0x0A, CHR 0x0A] @ ''---'' @ [CHR 0x0A, CHR 0x0A] @ ''**Answer:**''
                  @ [CHR 0x0A, CHR 0x0A]]
            else [])
           @ filter (\<lambda>part. part \<noteq> []) answer
     in strip (join [CHR 0x0A, CHR 0x0A] final_sections))"

definition finish_delta :: json where
  "finish_delta = JDict [(''delta'', JDict []), (''finish_reason'', JStr ''stop'')]"

definition finalize :: "bool \<Rightarrow> 'w agent_state \<Rightarrow> 'w agent_state" where
  "finalize stream_mode st =
    (if stream_mode then st\<lparr>yielded := yielded st @ [finish_delta]\<rparr>
     else st\<lparr>yielded := yielded st @ [JStr (final_answer (thinking_parts st) (answer_parts st))]\<rparr>)"

text \<open>
  \<^verbatim>\<open>while True\<close> has no bound: the loop is a partial function, and a run that never
  reaches \<^verbatim>\<open>break\<close> or an exception has no result.
\<close>

partial_function (option) ask_loop ::
    "'w env \<Rightarrow> bool \<Rightarrow> bool \<Rightarrow> json list \<Rightarrow> 'w agent_state \<Rightarrow> (outcome \<times> 'w agent_state) option" where
  "ask_loop env stream_mode include_tool_logs tools st =
    (case round_step env stream_mode include_tool_logs tools st of
       Next st' \<Rightarrow> ask_loop env stream_mode include_tool_logs tools st'
     | Break st' \<Rightarrow> Some (Returned, finalize stream_mode st')
     | Abort e st' \<Rightarrow> Some (Raised e, st'))"

declare ask_loop.simps [code]

text \<open>The state in which \<^verbatim>\<open>ask_stream\<close> enters its loop: a copy of the messages, no parts.\<close>

definition initial_state :: "'w \<Rightarrow> message list \<Rightarrow> 'w agent_state" where
  "initial_state w messages =
     \<lparr>world = w, conversation = messages, answer_parts = [], thinking_parts = [], yielded = []\<rparr>"

text \<open>
  \<^verbatim>\<open>ask_stream\<close>: what the caller of the generator sees (the chunks yielded, and whether
  the generator returned or raised) and the state in which it leaves the outside world.
\<close>

definition simulated :: string where
  "simulated = ''Simulated response.''"

definition ask_stream :: "'w env \<Rightarrow> bool \<Rightarrow> message list \<Rightarrow> bool \<Rightarrow> bool \<Rightarrow> 'w
    \<Rightarrow> (json list \<times> outcome \<times> 'w) option" where
  "ask_stream env simulate messages stream_mode include_tool_logs w =
    (if simulate then
       (if stream_mode then Some ([content_delta simulated, finish_delta], Returned, w)
        else Some ([JStr simulated], Returned, w))
     else
       (case list_tools env w of
          (Inl e, w1) \<Rightarrow> Some ([], Raised e, w1)
        | (Inr defs, w1) \<Rightarrow>
            map_option (\<lambda>(oc, st). (yielded st, oc, world st))
              (ask_loop env stream_mode include_tool_logs (map to_anthropic defs)
                 (initial_state w1 messages))))"

section \<open>Scripted collaborators\<close>

text \<open>
  The doubles of \<^verbatim>\<open>tests/test_agent.py\<close>. \<^verbatim>\<open>FakeAnthropic\<close> holds the prepared streams
  and hands out the next one at each \<^verbatim>\<open>stream()\<close> call, failing when none is left;
  \<^verbatim>\<open>DummyMCPClient\<close> advertises the tool \<^verbatim>\<open>echo\<close> and records every call. The tool's
  answer and the decoder are parameters.
\<close>

record fake_world =
  streams :: "stream_reply list"
  called :: "(string \<times> json) list"

definition fake_env :: "(string \<Rightarrow> json \<Rightarrow> error + string) \<Rightarrow> (string \<Rightarrow> loads_result)
    \<Rightarrow> fake_world env" where
  "fake_env tool lds =
    \<lparr>list_tools = (\<lambda>w.
        (Inr [\<lparr>name = ''echo'', description = ''test tool'',
               input_schema = JDict [(''type'', JStr ''object'')]\<rparr>], w)),
     messages_stream = (\<lambda>w tools msgs.
        (case streams w of
           [] \<Rightarrow> (\<lparr>events = [],
                   stream_error = Some (ProviderError ''No prepared fake stream available''),
                   final_message = Inl (ProviderError ''No prepared fake stream available'')\<rparr>, w)
         | r # rs \<Rightarrow> (r, w\<lparr>streams := rs\<rparr>))),
     call_tool = (\<lambda>w tool_name arguments.
        (tool tool_name arguments, w\<lparr>called := called w @ [(tool_name, arguments)]\<rparr>)),
     loads = lds\<rparr>"

text \<open>
  A tool that answers every call with one fixed string; the tool of \<^verbatim>\<open>EmptyMCPClient\<close>
  (\<^verbatim>\<open>mcp_client.py\<close>), which raises at every call; and a decoder that rejects its input
  with \<^verbatim>\<open>JSONDecodeError\<close>, as \<^verbatim>\<open>json.loads\<close> does for the empty string and for bare
  words.
\<close>

definition const_tool :: "string \<Rightarrow> string \<Rightarrow> json \<Rightarrow> error + string" where
  "const_tool s tool_name arguments = Inr s"

definition raising_tool :: "string \<Rightarrow> json \<Rightarrow> error + string" where
  "raising_tool tool_name arguments =
     Inl (ToolExecutorError ''call_tool should not be invoked when no tools are available'')"

definition no_json :: "string \<Rightarrow> loads_result" where
  "no_json s = JSONDecodeError"

text \<open>The events and blocks the tests build with \<^verbatim>\<open>FakeEvent\<close> and \<^verbatim>\<open>FakeContentBlock\<close>.\<close>

definition fake_block :: "string \<Rightarrow> string option \<Rightarrow> content_block" where
  "fake_block block_type txt =
     \<lparr>cb_type = Some block_type, cb_text = txt, cb_id = [], cb_name = [], cb_input = JNull\<rparr>"

definition tool_use_block :: "string \<Rightarrow> string \<Rightarrow> json \<Rightarrow> content_block" where
  "tool_use_block block_id tool_name inp =
     \<lparr>cb_type = Some ''tool_use'', cb_text = None, cb_id = block_id, cb_name = tool_name,
      cb_input = inp\<rparr>"

definition start_event :: "int \<Rightarrow> string \<Rightarrow> event" where
  "start_event i block_type =
     \<lparr>ev_type = ''content_block_start'', ev_index = i,
      ev_content_block = Some (fake_block block_type None), ev_delta = None\<rparr>"

definition text_delta_event :: "int \<Rightarrow> string \<Rightarrow> event" where
  "text_delta_event i txt =
     \<lparr>ev_type = ''content_block_delta'', ev_index = i, ev_content_block = None,
      ev_delta = Some \<lparr>d_type = Some ''text_delta'', d_text = Some txt, d_thinking = None\<rparr>\<rparr>"

definition stop_event :: "int \<Rightarrow> content_block option \<Rightarrow> event" where
  "stop_event i block = 
     \<lparr>ev_type = ''content_block_stop'', ev_index = i, ev_content_block = block, ev_delta = None\<rparr>"

definition fake_stream :: "event list \<Rightarrow> content_block list \<Rightarrow> stream_reply" where
  "fake_stream evs blocks = \<lparr>events = evs, stream_error = None, final_message = Inr blocks\<rparr>"

text \<open>
  The two prepared streams of \<^verbatim>\<open>test_agent_streams_tool_and_text\<close>: a round that
  finalizes one \<^verbatim>\<open>echo\<close> request, and a round that answers with text.
\<close>

definition tool_round :: stream_reply where
  "tool_round =
     fake_stream [stop_event 0 (Some (tool_use_block ''tool-1'' ''echo'' (JDict [(''x'', JInt 1)])))] []"

definition text_round :: stream_reply where
  "text_round =
     fake_stream [text_delta_event 0 ''final text''] [fake_block ''text'' (Some ''final text'')]"

definition user_hi :: "message list" where
  "user_hi = [\<lparr>role = ''user'', content = TextContent ''hi''\<rparr>]"

text \<open>
  The stream of \<^verbatim>\<open>test_agent_streams_thinking_separately\<close> (a thinking block, then a
  text block), and the stream of the example of the specification: the question
  \<^verbatim>\<open>2+2?\<close> answered by one text block \<^verbatim>\<open>4\<close>.
\<close>

definition thinking_round :: stream_reply where
  "thinking_round =
     fake_stream
       [start_event 0 ''thinking'', text_delta_event 0 ''inner thought'', stop_event 0 None,
        start_event 1 ''text'', text_delta_event 1 ''final answer'', stop_event 1 None]
       [fake_block ''text'' (Some ''final answer'')]"

definition four_round :: stream_reply where
  "four_round =
     fake_stream [start_event 0 ''text'', text_delta_event 0 ''4'', stop_event 0 None]
       [fake_block ''text'' (Some ''4'')]"

text \<open>
  The same answer as the provider's client streams it: the block's events between the
  message's own events (\<^verbatim>\<open>message_start\<close>, \<^verbatim>\<open>message_delta\<close>, \<^verbatim>\<open>message_stop\<close>), the
  text in two fragments, the start event carrying the still empty text block and the stop
  event the finished one.
\<close>

definition message_event :: "string \<Rightarrow> event" where
  "message_event event_type =
     \<lparr>ev_type = event_type, ev_index = 0, ev_content_block = None, ev_delta = None\<rparr>"

definition forty_two_round :: stream_reply where
  "forty_two_round =
     fake_stream
       [message_event ''message_start'',
        \<lparr>ev_type = ''content_block_start'', ev_index = 0,
         ev_content_block = Some (fake_block ''text'' (Some [])), ev_delta = None\<rparr>,
        text_delta_event 0 ''4'', text_delta_event 0 ''2'',
        stop_event 0 (Some (fake_block ''text'' (Some ''42''))),
        message_event ''message_delta'', message_event ''message_stop'']
       [fake_block ''text'' (Some ''42'')]"

section \<open>Observations used to state the properties\<close>

text \<open>
  The tool-use blocks that finalize in a stream, in stream order: the blocks carried by
  the \<^verbatim>\<open>content_block_stop\<close> events whose block type is \<^verbatim>\<open>tool_use\<close>.
\<close>

definition finalized_tool_use :: "event \<Rightarrow> content_block list" where
  "finalized_tool_use ev =
    (case ev_content_block ev of
       None \<Rightarrow> []
     | Some b \<Rightarrow> if ev_type ev = ''content_block_stop'' \<and> cb_type b = Some ''tool_use''
                 then [b] else [])"

definition finalized_tool_uses :: "event list \<Rightarrow> content_block list" where
  "finalized_tool_uses evs = concat (map finalized_tool_use evs)"

text \<open>
  The raw strings the executor returns when the given tool requests are invoked one after
  the other from the world \<open>w\<close>, each output being handed to \<^verbatim>\<open>json.loads\<close> before the
  next call; or the first exception: one that \<^verbatim>\<open>call_tool\<close> raises, or one that
  \<^verbatim>\<open>json.loads\<close> raises and that is not a \<^verbatim>\<open>JSONDecodeError\<close>.
\<close>

fun tool_outputs :: "'w env \<Rightarrow> content_block list \<Rightarrow> 'w \<Rightarrow> (error + string list) \<times> 'w" where
  "tool_outputs env [] w = (Inr [], w)"
| "tool_outputs env (tool_use # rest) w =
    (case call_tool env w (cb_name tool_use) (tool_args tool_use) of
       (Inl e, w1) \<Rightarrow> (Inl e, w1)
     | (Inr s, w1) \<Rightarrow>
         (case loads env s of
            LoadsRaised e \<Rightarrow> (Inl e, w1)
          | _ \<Rightarrow>
             (case tool_outputs env rest w1 of
                (Inl e, w2) \<Rightarrow> (Inl e, w2)
              | (Inr ss, w2) \<Rightarrow> (Inr (s # ss), w2))))"

text \<open>
  The \<^verbatim>\<open>content\<close> field of a live delta (\<^verbatim>\<open>chunk["delta"]["content"]\<close>, when the chunk is
  a dictionary that has one), and the concatenation of these fields over a live run.
\<close>

definition delta_content :: "json \<Rightarrow> string option" where
  "delta_content chunk =
    (case chunk of
       JDict d \<Rightarrow>
         (case dict_get d ''delta'' of
            Some (JDict dd) \<Rightarrow> (case dict_get dd ''content'' of Some (JStr s) \<Rightarrow> Some s | _ \<Rightarrow> None)
          | _ \<Rightarrow> None)
     | _ \<Rightarrow> None)"

definition live_content :: "json list \<Rightarrow> string" where
  "live_content chunks = concat (List.map_filter delta_content chunks)"

text \<open>
  What a stream carries, event by event: the text fragment of a \<^verbatim>\<open>content_block_delta\<close>
  (empty for any other event); whether the event is a \<^verbatim>\<open>content_block_stop\<close>; and whether
  it brings thinking into the round, by starting a block of type \<^verbatim>\<open>thinking\<close> or by a
  non-empty fragment whose delta has a \<^verbatim>\<open>thinking\<close> attribute or the type
  \<^verbatim>\<open>thinking_delta\<close>. The streamed text is the concatenation of the fragments.
\<close>

definition fragment_of :: "event \<Rightarrow> string" where
  "fragment_of ev =
     (if ev_type ev = ''content_block_delta'' then delta_text_of (ev_delta ev) else [])"

definition streamed_text :: "event list \<Rightarrow> string" where
  "streamed_text evs = concat (map fragment_of evs)"

definition is_block_stop :: "event \<Rightarrow> bool" where
  "is_block_stop ev = (ev_type ev = ''content_block_stop'')"

definition thinking_event :: "event \<Rightarrow> bool" where
  "thinking_event ev =
     ((ev_type ev = ''content_block_start''
         \<and> block_type_of (ev_content_block ev) = Some ''thinking'')
      \<or> (fragment_of ev \<noteq> []
         \<and> (has_thinking (ev_delta ev) \<or> delta_type_of (ev_delta ev) = Some ''thinking_delta'')))"

section \<open>Properties of the adapter\<close>

lemma sse_frame_not_done: "sse_frame p \<noteq> done_frame"
  by (simp add: sse_frame_def done_frame_def)

lemma count_frames_done:
  "count_list (map (\<lambda>chunk. sse_frame (chunk_payload base chunk)) chunks) done_frame = 0"
  by (induction chunks) (simp_all add: sse_frame_not_done)

text \<open>
  C5. Whatever the chunks are, the frames of \<^verbatim>\<open>async_sse_chat_completions\<close> end with
  the literal frame \<^verbatim>\<open>data: [DONE]\n\n\<close>, that frame occurs exactly once among them, and
  for an empty source it is the only frame.
\<close>

theorem sse_ends_with_one_done:
  "last (async_sse_chat_completions uid now chunks model) = ''data: [DONE]'' @ [CHR 0x0A, CHR 0x0A]
   \<and> count_list (async_sse_chat_completions uid now chunks model)
         (''data: [DONE]'' @ [CHR 0x0A, CHR 0x0A]) = 1
   \<and> async_sse_chat_completions uid now [] model = [''data: [DONE]'' @ [CHR 0x0A, CHR 0x0A]]"
proof -
  have d: "''data: [DONE]'' @ [CHR 0x0A, CHR 0x0A] = done_frame"
    by (simp add: done_frame_def)
  show ?thesis
    unfolding d by (simp add: async_sse_chat_completions_def count_frames_done)
qed

lemma map_of_dict_set: "map_of (dict_set k v d) = (map_of d)(k \<mapsto> v)"
  by (induction d) (auto simp: fun_eq_iff)

lemma keys_dict_set: "fst ` set (dict_set k v d) = insert k (fst ` set d)"
  by (induction d) auto

lemma distinct_dict_set: "distinct (map fst d) \<Longrightarrow> distinct (map fst (dict_set k v d))"
  by (induction d) (auto simp: keys_dict_set)

lemma map_of_dict_merge:
  "distinct (map fst b) \<Longrightarrow> map_of (dict_merge a b) = map_of a ++ map_of b"
proof (induction b arbitrary: a)
  case Nil
  then show ?case by simp
next
  case (Cons p ps)
  obtain k v where p: "p = (k, v)" by (cases p)
  from Cons.prems p have k: "map_of ps k = None" and d: "distinct (map fst ps)"
    by (auto simp: map_of_eq_None_iff)
  have "dict_merge a (p # ps) = dict_merge (dict_set k v a) ps"
    using p by simp
  then have "map_of (dict_merge a (p # ps)) = map_of (dict_set k v a) ++ map_of ps"
    by (simp only: Cons.IH [OF d])
  then have "map_of (dict_merge a (p # ps)) = (map_of a)(k \<mapsto> v) ++ map_of ps"
    by (simp only: map_of_dict_set)
  also have "\<dots> = map_of a ++ map_of (p # ps)"
    using k p by (auto simp: fun_eq_iff map_add_def split: option.splits)
  finally show ?case .
qed

lemma distinct_dict_merge: "distinct (map fst a) \<Longrightarrow> distinct (map fst (dict_merge a b))"
  by (induction b arbitrary: a) (auto simp: distinct_dict_set)

lemma dict_get_merge:
  assumes "distinct (map fst b)"
  shows "dict_get (dict_merge a b) k = (if dict_has b k then dict_get b k else dict_get a k)"
proof (cases "map_of b k")
  case None
  then have "\<not> dict_has b k"
    by (simp add: dict_has_def map_of_eq_None_iff)
  with None show ?thesis
    by (simp add: dict_get_def map_of_dict_merge [OF assms] map_add_def)
next
  case (Some v)
  then have "dict_has b k"
    by (auto simp: dict_has_def dest: map_of_SomeD intro: rev_image_eqI)
  with Some show ?thesis
    by (simp add: dict_get_def map_of_dict_merge [OF assms] map_add_def)
qed

text \<open>
  C6. A dictionary chunk that has a \<^verbatim>\<open>choices\<close> key is not rewrapped: its frame prints
  the envelope merged with the chunk. In that payload every key of the chunk, \<^verbatim>\<open>choices\<close>
  among them, keeps the chunk's value, and the envelope supplies a value only for a key
  the chunk does not define.
\<close>

theorem sse_forwards_choices_chunk:
  assumes "i < length chunks" and "chunks ! i = JDict d"
    and "dict_has d ''choices''" and "distinct (map fst d)"
  shows "(let payload = dict_merge (base_payload uid now model) d in
      async_sse_chat_completions uid now chunks model ! i
        = ''data: '' @ dumps (JDict payload) @ [CHR 0x0A, CHR 0x0A]
    \<and> distinct (map fst payload)
    \<and> dict_get payload ''choices'' = dict_get d ''choices''
    \<and> (\<forall>k. dict_get payload k =
           (if dict_has d k then dict_get d k else dict_get (base_payload uid now model) k)))"
proof -
  have b: "distinct (map fst (base_payload uid now model))"
    by (simp add: base_payload_def)
  have "async_sse_chat_completions uid now chunks model ! i
      = sse_frame (chunk_payload (base_payload uid now model) (chunks ! i))"
    using assms(1) by (simp add: async_sse_chat_completions_def nth_append)
  also have "\<dots> = sse_frame (dict_merge (base_payload uid now model) d)"
    using assms(2,3) by (simp add: chunk_payload_def)
  finally show ?thesis
    using assms(3,4) b
    by (simp add: sse_frame_def distinct_dict_merge dict_get_merge)
qed

theorem sse_forwards_choices_chunk_witness:
  "(1::nat) < length [JStr ''hi'',
       JDict [(''choices'', JList [JInt 7]), (''object'', JStr ''chat.completion.chunk'')]]
   \<and> dict_has [(''choices'', JList [JInt 7]), (''object'', JStr ''chat.completion.chunk'')] ''choices''
   \<and> distinct (map fst [(''choices'', JList [JInt 7]), (''object'', JStr ''chat.completion.chunk'')])
   \<and> async_sse_chat_completions ''ab'' 17
       [JStr ''hi'',
        JDict [(''choices'', JList [JInt 7]), (''object'', JStr ''chat.completion.chunk'')]] ''m'' ! 1
     = ''data: '' @ dumps (JDict [(''id'', JStr ''chatcmpl-ab''),
          (''object'', JStr ''chat.completion.chunk''), (''created'', JInt 17),
          (''model'', JStr ''m''), (''choices'', JList [JInt 7])]) @ [CHR 0x0A, CHR 0x0A]"
proof -
  let ?d = "[(''choices'', JList [JInt 7]), (''object'', JStr ''chat.completion.chunk'')]"
  have h1: "(1::nat) < length [JStr ''hi'', JDict ?d]" by simp
  have h2: "[JStr ''hi'', JDict ?d] ! 1 = JDict ?d" by simp
  have h3: "dict_has ?d ''choices''" by (simp add: dict_has_def)
  have h4: "distinct (map fst ?d)" by simp
  have m: "dict_merge (base_payload ''ab'' 17 ''m'') ?d =
      [(''id'', JStr ''chatcmpl-ab''), (''object'', JStr ''chat.completion.chunk''),
       (''created'', JInt 17), (''model'', JStr ''m''), (''choices'', JList [JInt 7])]"
    by (simp add: base_payload_def)
  from sse_forwards_choices_chunk [OF h1 h2 h3 h4, of "''ab''" 17 "''m''"] h1 h3 h4
  show ?thesis
    unfolding Let_def m by blast
qed

section \<open>Properties of the agent\<close>

text \<open>
  C10. With \<^verbatim>\<open>simulate\<close> set, \<^verbatim>\<open>ask_stream\<close> returns after yielding a fixed sequence:
  in stream mode the delta with content \<^verbatim>\<open>Simulated response.\<close> and the delta with
  \<^verbatim>\<open>finish_reason\<close> \<^verbatim>\<open>stop\<close>, in collected mode the one string
  \<^verbatim>\<open>Simulated response.\<close>. The result is the same for every message list and every
  provider and tool executor, and the outside world is left in the state it was in.
\<close>

theorem simulate_is_constant:
  "ask_stream env True messages stream_mode include_tool_logs w =
     Some (if stream_mode
           then [JDict [(''delta'', JDict [(''content'', JStr ''Simulated response.'')])],
                 JDict [(''delta'', JDict []), (''finish_reason'', JStr ''stop'')]]
           else [JStr ''Simulated response.''], Returned, w)"
  by (simp add: ask_stream_def simulated_def content_delta_def finish_delta_def)

subsection \<open>Reading the events\<close>

lemma on_event_collected_yielded: "rs_yielded (on_event False ev rs) = rs_yielded rs"
  by (simp add: on_event_def on_block_start_def on_block_delta_def on_block_stop_def
        on_tool_use_stop_def Let_def split: option.splits)

lemma on_events_collected_yielded: "rs_yielded (on_events False evs rs) = rs_yielded rs"
  by (induction evs arbitrary: rs) (simp_all add: on_event_collected_yielded)

lemma on_event_tool_requests:
  "tool_requests (on_event sm ev rs) = tool_requests rs @ finalized_tool_use ev"
  by (simp add: on_event_def on_block_start_def on_block_delta_def on_block_stop_def
        on_tool_use_stop_def finalized_tool_use_def block_type_of_def Let_def split: option.splits)

lemma on_events_tool_requests:
  "tool_requests (on_events sm evs rs) = tool_requests rs @ finalized_tool_uses evs"
  by (induction evs arbitrary: rs) (simp_all add: on_event_tool_requests finalized_tool_uses_def)

lemma round_events_tool_requests:
  "tool_requests (round_events sm evs st) = finalized_tool_uses evs"
  by (simp add: round_events_def on_events_tool_requests)

text \<open>
  C4 (as amended). In live operation the delta emitted for a thinking fragment carries
  the fragment under the \<^verbatim>\<open>thinking\<close> key and the same text under the \<^verbatim>\<open>content\<close> key;
  the delta for an answer fragment carries it under \<^verbatim>\<open>content\<close> only. A fragment is a
  thinking fragment when its block started as \<^verbatim>\<open>thinking\<close>, or its delta has a
  \<^verbatim>\<open>thinking\<close> attribute, or its delta's type is \<^verbatim>\<open>thinking_delta\<close>.
\<close>

theorem thinking_fragment_delta:
  assumes "ev_type ev = ''content_block_delta''"
    and "delta_text_of (ev_delta ev) = t" and "t \<noteq> []"
  shows "on_event True ev rs =
    (if block_types rs (ev_index ev) = Some (Some ''thinking'')
        \<or> has_thinking (ev_delta ev)
        \<or> delta_type_of (ev_delta ev) = Some ''thinking_delta''
     then rs\<lparr>rs_thinking := rs_thinking rs @ [t],
             rs_yielded := rs_yielded rs
               @ [JDict [(''delta'', JDict [(''thinking'', JStr t), (''content'', JStr t)])]]\<rparr>
     else rs\<lparr>rs_yielded := rs_yielded rs
               @ [JDict [(''delta'', JDict [(''content'', JStr t)])]]\<rparr>)"
  using assms
  by (simp add: on_event_def on_block_start_def on_block_delta_def on_block_stop_def
        on_tool_use_stop_def thinking_delta_def content_delta_def Let_def)

theorem thinking_fragment_delta_witness:
  "ev_type (text_delta_event 0 ''inner thought'') = ''content_block_delta''
   \<and> delta_text_of (ev_delta (text_delta_event 0 ''inner thought'')) = ''inner thought''
   \<and> rs_yielded (on_event True (text_delta_event 0 ''inner thought'')
        (round_events True [start_event 0 ''thinking''] (initial_state () [])))
     = [JDict [(''delta'', JDict [(''content'', JStr (''**Thoughts:**'' @ [CHR 0x0A]))])],
        JDict [(''delta'', JDict [(''thinking'', JStr ''inner thought''),
                                  (''content'', JStr ''inner thought'')])]]"
proof -
  let ?ev = "text_delta_event 0 ''inner thought''"
  let ?rs = "round_events True [start_event 0 ''thinking''] (initial_state () [])"
  have h1: "ev_type ?ev = ''content_block_delta''"
    by (simp add: text_delta_event_def)
  have h2: "delta_text_of (ev_delta ?ev) = ''inner thought''"
    by (simp add: text_delta_event_def delta_text_of_def)
  have h3: "''inner thought'' \<noteq> []" by simp
  have b: "block_types ?rs (ev_index ?ev) = Some (Some ''thinking'')"
    by (simp add: round_events_def on_event_def on_block_start_def on_block_delta_def
          on_block_stop_def on_tool_use_stop_def start_event_def text_delta_event_def
          fake_block_def block_type_of_def initial_state_def Let_def)
  have y: "rs_yielded ?rs = [JDict [(''delta'', JDict [(''content'', JStr (''**Thoughts:**'' @ [CHR 0x0A]))])]]"
    by (simp add: round_events_def on_event_def on_block_start_def on_block_delta_def
          on_block_stop_def on_tool_use_stop_def start_event_def content_delta_def
          fake_block_def block_type_of_def initial_state_def Let_def)
  from thinking_fragment_delta [OF h1 h2 h3, of ?rs] b y h1 h2
  show ?thesis by simp
qed

text \<open>
  C4, as stated, fails on the stream of the repository's own test
  \<^verbatim>\<open>test_agent_streams_thinking_separately\<close>: the second delta of the live run carries
  the thinking text \<^verbatim>\<open>inner thought\<close> under \<^verbatim>\<open>content\<close>.
\<close>

theorem thinking_text_under_content_counterexample:
  "ask_stream (fake_env (const_tool []) no_json) False user_hi True True
       \<lparr>streams = [thinking_round], called = []\<rparr>
     = Some ([JDict [(''delta'', JDict [(''content'', JStr (''**Thoughts:**'' @ [CHR 0x0A]))])],
              JDict [(''delta'', JDict [(''thinking'', JStr ''inner thought''),
                                        (''content'', JStr ''inner thought'')])],
              JDict [(''delta'', JDict [(''content'',
                        JStr ([CHR 0x0A, CHR 0x0A] @ ''---'' @ [CHR 0x0A, CHR 0x0A]))])],
              JDict [(''delta'', JDict [(''content'', JStr [CHR 0x0A])])],
              JDict [(''delta'', JDict [(''content'', JStr ''final answer'')])],
              JDict [(''delta'', JDict [(''content'', JStr [CHR 0x0A])])],
              JDict [(''delta'', JDict []), (''finish_reason'', JStr ''stop'')]],
             Returned, \<lparr>streams = [], called = []\<rparr>)
   \<and> delta_content (JDict [(''delta'', JDict [(''thinking'', JStr ''inner thought''),
                                              (''content'', JStr ''inner thought'')])])
     = Some ''inner thought''"
  by code_simp


subsection \<open>The tools of a round\<close>

lemma log_call_fields:
  "world (log_call sm logs tu st) = world st"
  "conversation (log_call sm logs tu st) = conversation st"
  "thinking_parts (log_call sm logs tu st) = thinking_parts st"
  "yielded (log_call False logs tu st) = yielded st"
  by (simp_all add: log_call_def Let_def)

lemma log_result_fields:
  "world (log_result sm logs tu s parsed st) = world st"
  "conversation (log_result sm logs tu s parsed st) = conversation st"
  "thinking_parts (log_result sm logs tu s parsed st) = thinking_parts st"
  "yielded (log_result False logs tu s parsed st) = yielded st"
  by (simp_all add: log_result_def Let_def)

lemma run_tools_step:
  assumes "call_tool env (world st) (cb_name tu) (tool_args tu) = (Inr s, w)"
    and "parse_tool_output (loads env) s = Inr parsed"
  shows "run_tools env sm logs (tu # rest) acc st =
     run_tools env sm logs rest (acc @ [make_tool_result tu s])
       (log_result sm logs tu s parsed ((log_call sm logs tu st)\<lparr>world := w\<rparr>))"
  using assms by (simp add: Let_def log_call_fields)

lemma run_tools_fail:
  assumes "call_tool env (world st) (cb_name tu) (tool_args tu) = (Inl e, w)"
  shows "run_tools env sm logs (tu # rest) acc st = (Inl e, (log_call sm logs tu st)\<lparr>world := w\<rparr>)"
  using assms by (simp add: Let_def log_call_fields)

text \<open>An exception of \<^verbatim>\<open>json.loads\<close> that the handler does not catch ends the loop, after
  the tool was called and before its result is logged or collected.\<close>

lemma run_tools_decoder_raises:
  assumes "call_tool env (world st) (cb_name tu) (tool_args tu) = (Inr s, w)"
    and "loads env s = LoadsRaised e"
  shows "run_tools env sm logs (tu # rest) acc st = (Inl e, (log_call sm logs tu st)\<lparr>world := w\<rparr>)"
  using assms by (simp add: Let_def log_call_fields parse_tool_output_def)

text \<open>The loop follows the executor and the decoder: it fails where they first fail, and
  otherwise collects one result per request, in order.\<close>

lemma run_tools_outputs:
  "(case tool_outputs env reqs (world st) of
      (Inl e, w') \<Rightarrow> \<exists>st'. run_tools env sm logs reqs acc st = (Inl e, st') \<and> world st' = w'
    | (Inr outs, w') \<Rightarrow> length outs = length reqs \<and>
        (\<exists>st'. run_tools env sm logs reqs acc st
                 = (Inr (acc @ map2 make_tool_result reqs outs), st') \<and> world st' = w'))"
proof (induction reqs arbitrary: acc st)
  case Nil
  then show ?case by simp
next
  case (Cons tu rest)
  show ?case
  proof (cases "call_tool env (world st) (cb_name tu) (tool_args tu)")
    case (Pair r w1)
    show ?thesis
    proof (cases r)
      case (Inl e)
      with Pair show ?thesis by (simp add: run_tools_fail del: run_tools.simps)
    next
      case (Inr s)
      show ?thesis
      proof (cases "parse_tool_output (loads env) s")
        case (Inl e)
        then have l: "loads env s = LoadsRaised e"
          by (simp add: parse_tool_output_def split: loads_result.splits)
        from Pair Inr l show ?thesis
          by (simp add: run_tools_decoder_raises del: run_tools.simps)
      next
        case p: (Inr parsed)
        let ?st = "log_result sm logs tu s parsed ((log_call sm logs tu st)\<lparr>world := w1\<rparr>)"
        have w: "world ?st = w1" by (simp add: log_result_fields)
        from Pair Inr p have step: "run_tools env sm logs (tu # rest) acc st
            = run_tools env sm logs rest (acc @ [make_tool_result tu s]) ?st"
          by (simp add: run_tools_step del: run_tools.simps)
        from p have nr: "\<And>e. loads env s \<noteq> LoadsRaised e"
          by (auto simp: parse_tool_output_def)
        have t: "tool_outputs env (tu # rest) (world st) =
            (case tool_outputs env rest w1 of
               (Inl e, w2) \<Rightarrow> (Inl e, w2)
             | (Inr ss, w2) \<Rightarrow> (Inr (s # ss), w2))"
          using Pair Inr nr by (simp split: loads_result.splits)
        from Cons.IH [of "acc @ [make_tool_result tu s]" ?st]
        show ?thesis
          unfolding step w t by (auto split: prod.splits sum.splits)
      qed
    qed
  qed
qed

lemma run_tools_conversation:
  "conversation (snd (run_tools env sm logs reqs acc st)) = conversation st"
proof (induction reqs arbitrary: acc st)
  case Nil
  then show ?case by simp
next
  case (Cons tu rest)
  show ?case
  proof (cases "call_tool env (world st) (cb_name tu) (tool_args tu)")
    case (Pair r w1)
    then show ?thesis
      by (cases r; cases "parse_tool_output (loads env) (projr r)")
         (simp_all add: Let_def Cons.IH log_call_fields log_result_fields)
  qed
qed

lemma run_tools_collected_yielded:
  "yielded (snd (run_tools env False logs reqs acc st)) = yielded st"
proof (induction reqs arbitrary: acc st)
  case Nil
  then show ?case by simp
next
  case (Cons tu rest)
  show ?case
  proof (cases "call_tool env (world st) (cb_name tu) (tool_args tu)")
    case (Pair r w1)
    then show ?thesis
      by (cases r; cases "parse_tool_output (loads env) (projr r)")
         (simp_all add: Let_def Cons.IH log_call_fields log_result_fields)
  qed
qed

text \<open>
  C9 (as amended). When the executor returns a string on which \<^verbatim>\<open>json.loads\<close> raises
  \<^verbatim>\<open>JSONDecodeError\<close>, the loop over the tool requests is not left: it goes on with the
  remaining requests, having collected a tool result whose content is that raw string
  (for the empty string, on which \<^verbatim>\<open>json.loads\<close> raises \<^verbatim>\<open>JSONDecodeError\<close> too, the fixed
  text \<^verbatim>\<open>No content returned by tool.\<close>). The logs show the raw string as well, and the
  conversation is not touched before the round's batch is complete.
\<close>

theorem unparseable_output_kept:
  assumes "call_tool env (world st) (cb_name tool_use) (tool_args tool_use) = (Inr s, w)"
    and "loads env s = JSONDecodeError"
  shows "\<exists>st'.
      run_tools env sm logs (tool_use # rest) results st
        = run_tools env sm logs rest
            (results @ [\<lparr>tr_type = ''tool_result'', tool_use_id = cb_id tool_use,
                          tr_content = (if s \<noteq> [] then s else ''No content returned by tool.'')\<rparr>])
            st'
    \<and> world st' = w
    \<and> conversation st' = conversation st
    \<and> yielded st' = yielded st
         @ (if sm \<and> logs
            then [JStr (calling_log (cb_name tool_use) (dumps (tool_args tool_use)))]
                 @ (if s \<noteq> [] then [tool_result_delta tool_use s] else [])
            else [])
    \<and> answer_parts st' = answer_parts st
         @ (if logs
            then [calling_log (cb_name tool_use) (dumps_indent 0 (tool_args tool_use)),
                  result_log (cb_name tool_use) s]
            else [])"
proof -
  have p: "parse_tool_output (loads env) s = Inr (JStr s)"
    using assms(2) by (simp add: parse_tool_output_def)
  let ?st = "log_result sm logs tool_use s (JStr s) ((log_call sm logs tool_use st)\<lparr>world := w\<rparr>)"
  have "run_tools env sm logs (tool_use # rest) results st
      = run_tools env sm logs rest (results @ [make_tool_result tool_use s]) ?st"
    by (rule run_tools_step [OF assms(1) p])
  moreover have "world ?st = w" and "conversation ?st = conversation st"
    by (simp_all add: log_result_fields log_call_fields)
  moreover have "yielded ?st = yielded st
         @ (if sm \<and> logs
            then [JStr (calling_log (cb_name tool_use) (dumps (tool_args tool_use)))]
                 @ (if s \<noteq> [] then [tool_result_delta tool_use s] else [])
            else [])"
    by (simp add: log_result_def log_call_def rendered_output_def Let_def)
  moreover have "answer_parts ?st = answer_parts st
         @ (if logs
            then [calling_log (cb_name tool_use) (dumps_indent 0 (tool_args tool_use)),
                  result_log (cb_name tool_use) s]
            else [])"
    by (simp add: log_result_def log_call_def Let_def)
  ultimately show ?thesis
    unfolding make_tool_result_def by blast
qed

theorem unparseable_output_kept_witness:
  "call_tool (fake_env (const_tool ''pong'') no_json) \<lparr>streams = [], called = []\<rparr> ''echo''
       (JDict [(''x'', JInt 1)])
     = (Inr ''pong'', \<lparr>streams = [], called = [(''echo'', JDict [(''x'', JInt 1)])]\<rparr>)
   \<and> loads (fake_env (const_tool ''pong'') no_json) ''pong'' = JSONDecodeError
   \<and> fst (run_tools (fake_env (const_tool ''pong'') no_json) False False
        [tool_use_block ''tool-1'' ''echo'' (JDict [(''x'', JInt 1)]),
         tool_use_block ''tool-2'' ''echo'' (JDict [])] []
        (initial_state \<lparr>streams = [], called = []\<rparr> user_hi))
     = Inr [\<lparr>tr_type = ''tool_result'', tool_use_id = ''tool-1'', tr_content = ''pong''\<rparr>,
            \<lparr>tr_type = ''tool_result'', tool_use_id = ''tool-2'', tr_content = ''pong''\<rparr>]"
proof -
  let ?env = "fake_env (const_tool ''pong'') no_json"
  let ?tu = "tool_use_block ''tool-1'' ''echo'' (JDict [(''x'', JInt 1)])"
  let ?st = "initial_state \<lparr>streams = [], called = []\<rparr> user_hi"
  have h1: "call_tool ?env (world ?st) (cb_name ?tu) (tool_args ?tu)
      = (Inr ''pong'', \<lparr>streams = [], called = [(''echo'', JDict [(''x'', JInt 1)])]\<rparr>)"
    by (simp add: fake_env_def const_tool_def initial_state_def tool_use_block_def tool_args_def)
  have h2: "loads ?env ''pong'' = JSONDecodeError"
    by (simp add: fake_env_def no_json_def)
  from unparseable_output_kept [OF h1 h2, of False False "[tool_use_block ''tool-2'' ''echo'' (JDict [])]" "[]"]
  obtain st' where
    run: "run_tools ?env False False [?tu, tool_use_block ''tool-2'' ''echo'' (JDict [])] [] ?st
        = run_tools ?env False False [tool_use_block ''tool-2'' ''echo'' (JDict [])]
            [\<lparr>tr_type = ''tool_result'', tool_use_id = cb_id ?tu, tr_content = ''pong''\<rparr>] st'"
    and w: "world st' = \<lparr>streams = [], called = [(''echo'', JDict [(''x'', JInt 1)])]\<rparr>"
    by auto
  have "fst (run_tools ?env False False [tool_use_block ''tool-2'' ''echo'' (JDict [])]
            [\<lparr>tr_type = ''tool_result'', tool_use_id = cb_id ?tu, tr_content = ''pong''\<rparr>] st')
      = Inr [\<lparr>tr_type = ''tool_result'', tool_use_id = ''tool-1'', tr_content = ''pong''\<rparr>,
             \<lparr>tr_type = ''tool_result'', tool_use_id = ''tool-2'', tr_content = ''pong''\<rparr>]"
    by (simp add: w fake_env_def const_tool_def no_json_def tool_use_block_def tool_args_def
          make_tool_result_def log_call_def parse_tool_output_def Let_def)
  with run h1 h2 show ?thesis
    by (simp add: initial_state_def tool_use_block_def tool_args_def)
qed

text \<open>
  C9, as stated, fails for the empty string: \<^verbatim>\<open>json.loads\<close> rejects it with
  \<^verbatim>\<open>JSONDecodeError\<close>, and what is fed back is not the raw (empty) string but the fixed
  text.
\<close>

theorem unparseable_empty_output_counterexample:
  "call_tool (fake_env (const_tool []) no_json) \<lparr>streams = [], called = []\<rparr> ''echo''
       (JDict [(''x'', JInt 1)])
     = (Inr [], \<lparr>streams = [], called = [(''echo'', JDict [(''x'', JInt 1)])]\<rparr>)
   \<and> loads (fake_env (const_tool []) no_json) [] = JSONDecodeError
   \<and> fst (run_tools (fake_env (const_tool []) no_json) True True
        [tool_use_block ''tool-1'' ''echo'' (JDict [(''x'', JInt 1)])] []
        (initial_state \<lparr>streams = [], called = []\<rparr> user_hi))
     = Inr [\<lparr>tr_type = ''tool_result'', tool_use_id = ''tool-1'',
             tr_content = ''No content returned by tool.''\<rparr>]"
  by code_simp

subsection \<open>One round\<close>

lemma round_step_cases:
  assumes "messages_stream env (world st) tools (conversation st) = (reply, w)"
  shows "round_step env sm logs tools st =
    (let st1 = after_stream sm (events reply) w st
     in case stream_error reply of
          Some e \<Rightarrow> Abort e st1
        | None \<Rightarrow>
           (case final_message reply of
              Inl e \<Rightarrow> Abort e st1
            | Inr blocks \<Rightarrow>
               (let st2 = after_final_message blocks st1
                in if finalized_tool_uses (events reply) = [] then Break st2
                   else (case run_tools env sm logs (finalized_tool_uses (events reply)) [] st2 of
                           (Inl e, st3) \<Rightarrow> Abort e st3
                         | (Inr tool_results, st3) \<Rightarrow> Next (after_tools tool_results st3)))))"
  using assms
  by (simp add: round_step_def round_events_tool_requests Let_def
        split: option.splits sum.splits prod.splits)

lemma round_step_Next:
  assumes "round_step env sm logs tools st = Next st'"
    and "messages_stream env (world st) tools (conversation st) = (reply, w)"
  shows "\<exists>blocks results st3.
      stream_error reply = None \<and> final_message reply = Inr blocks
    \<and> finalized_tool_uses (events reply) \<noteq> []
    \<and> run_tools env sm logs (finalized_tool_uses (events reply)) []
         (after_final_message blocks (after_stream sm (events reply) w st)) = (Inr results, st3)
    \<and> st' = after_tools results st3"
  using assms(1) unfolding round_step_cases [OF assms(2)]
  by (auto simp: Let_def split: option.splits sum.splits if_splits prod.splits)

lemma after_fields:
  "world (after_stream sm evs w st) = w"
  "conversation (after_stream sm evs w st) = conversation st"
  "yielded (after_stream False evs w st) = yielded st"
  "world (after_final_message blocks st) = world st"
  "conversation (after_final_message blocks st)
     = conversation st @ [\<lparr>role = ''assistant'', content = BlockContent blocks\<rparr>]"
  "yielded (after_final_message blocks st) = yielded st"
  "world (after_tools results st) = world st"
  "conversation (after_tools results st)
     = conversation st @ [\<lparr>role = ''user'', content = ResultContent results\<rparr>]"
  "yielded (after_tools results st) = yielded st"
  "thinking_parts (after_tools results st) = thinking_parts st"
  "answer_parts (after_tools results st) = answer_parts st"
  by (simp_all add: after_stream_def after_final_message_def after_tools_def Let_def
        round_events_def on_events_collected_yielded)

lemma round_step_Abort:
  assumes "round_step env sm logs tools st = Abort e st'"
  shows "conversation st' = conversation st
       \<or> (\<exists>blocks. conversation st'
             = conversation st @ [\<lparr>role = ''assistant'', content = BlockContent blocks\<rparr>])"
proof (cases "messages_stream env (world st) tools (conversation st)")
  case (Pair reply w)
  from assms show ?thesis
    unfolding round_step_cases [OF Pair]
    using run_tools_conversation [where env=env and sm=sm and logs=logs
        and reqs="finalized_tool_uses (events reply)" and acc="[]"]
    by (auto simp: Let_def after_fields split: option.splits sum.splits if_splits prod.splits
          dest!: arg_cong [where f=snd])
qed

text \<open>
  C3 (as amended). Take a round in which at least one tool-use block finalizes. If no
  exception cuts the round short, the loop goes round again after appending to the
  conversation the assistant message and then exactly one user message: the batch of tool
  results, one per tool request, each built from that request and the string the executor
  returned for it, in the order in which the tool-use blocks finalized in the stream. If
  an exception cuts it short, no user message is appended: the conversation is as it was,
  or has the assistant message only. Such a round never ends the loop by \<^verbatim>\<open>break\<close>.
\<close>

theorem tool_results_one_message:
  assumes "messages_stream env (world st) tools (conversation st) = (reply, w)"
    and "finalized_tool_uses (events reply) \<noteq> []"
  shows "(case round_step env sm logs tools st of
      Next st' \<Rightarrow>
        (\<exists>blocks outs w'.
            final_message reply = Inr blocks
          \<and> tool_outputs env (finalized_tool_uses (events reply)) w = (Inr outs, w')
          \<and> length outs = length (finalized_tool_uses (events reply))
          \<and> world st' = w'
          \<and> conversation st' = conversation st
               @ [\<lparr>role = ''assistant'', content = BlockContent blocks\<rparr>,
                  \<lparr>role = ''user'', content = ResultContent
                     (map2 (\<lambda>tool_use s.
                              \<lparr>tr_type = ''tool_result'', tool_use_id = cb_id tool_use,
                               tr_content =
                                 (if s \<noteq> [] then s else ''No content returned by tool.'')\<rparr>)
                        (finalized_tool_uses (events reply)) outs)\<rparr>])
    | Break st' \<Rightarrow> False
    | Abort e st' \<Rightarrow>
        conversation st' = conversation st
        \<or> (\<exists>blocks. conversation st'
              = conversation st @ [\<lparr>role = ''assistant'', content = BlockContent blocks\<rparr>]))"
proof (cases "round_step env sm logs tools st")
  case (Next st')
  from round_step_Next [OF Next assms(1)] obtain blocks results st3 where
    fm: "final_message reply = Inr blocks"
    and run: "run_tools env sm logs (finalized_tool_uses (events reply)) []
         (after_final_message blocks (after_stream sm (events reply) w st)) = (Inr results, st3)"
    and st': "st' = after_tools results st3"
    by blast
  let ?reqs = "finalized_tool_uses (events reply)"
  let ?st2 = "after_final_message blocks (after_stream sm (events reply) w st)"
  have w2: "world ?st2 = w" by (simp add: after_fields)
  have c3: "conversation st3 = conversation ?st2"
    using run_tools_conversation [where env=env and reqs="?reqs" and st="?st2"
        and sm=sm and logs=logs and acc="[]"] run
    by simp
  note outs = run_tools_outputs [where env=env and reqs="?reqs" and st="?st2"
        and sm=sm and logs=logs and acc="[]"]
  obtain outs w' where o: "tool_outputs env ?reqs w = (Inr outs, w')"
    using outs run unfolding w2 by (auto split: prod.splits sum.splits)
  with outs run have res: "results = map2 make_tool_result ?reqs outs"
    and len: "length outs = length ?reqs" and w3: "world st3 = w'"
    unfolding w2 by auto
  have mk: "make_tool_result = (\<lambda>tool_use s.
                        \<lparr>tr_type = ''tool_result'', tool_use_id = cb_id tool_use,
                         tr_content = (if s \<noteq> [] then s else ''No content returned by tool.'')\<rparr>)"
    by (simp add: fun_eq_iff make_tool_result_def)
  have "\<exists>blocks outs w'.
            final_message reply = Inr blocks
          \<and> tool_outputs env ?reqs w = (Inr outs, w')
          \<and> length outs = length ?reqs
          \<and> world st' = w'
          \<and> conversation st' = conversation st
               @ [\<lparr>role = ''assistant'', content = BlockContent blocks\<rparr>,
                  \<lparr>role = ''user'', content = ResultContent (map2 make_tool_result ?reqs outs)\<rparr>]"
    using fm o len w3 st' c3 res by (simp add: after_fields)
  with Next show ?thesis unfolding mk by simp
next
  case (Break st')
  with assms(2) show ?thesis
    unfolding round_step_cases [OF assms(1)]
    by (auto simp: Let_def split: option.splits sum.splits if_splits prod.splits)
next
  case (Abort e st')
  from round_step_Abort [OF Abort] Abort show ?thesis by simp
qed

theorem tool_results_one_message_witness:
  "messages_stream (fake_env (const_tool ''pong'') no_json)
       (world (initial_state \<lparr>streams = [tool_round, text_round], called = []\<rparr> user_hi)) []
       (conversation (initial_state \<lparr>streams = [tool_round, text_round], called = []\<rparr> user_hi))
     = (tool_round, \<lparr>streams = [text_round], called = []\<rparr>)
   \<and> finalized_tool_uses (events tool_round)
     = [tool_use_block ''tool-1'' ''echo'' (JDict [(''x'', JInt 1)])]
   \<and> round_step (fake_env (const_tool ''pong'') no_json) False False []
        (initial_state \<lparr>streams = [tool_round, text_round], called = []\<rparr> user_hi)
     = Next \<lparr>world = \<lparr>streams = [text_round], called = [(''echo'', JDict [(''x'', JInt 1)])]\<rparr>,
             conversation = user_hi
               @ [\<lparr>role = ''assistant'', content = BlockContent []\<rparr>,
                  \<lparr>role = ''user'', content = ResultContent
                     [\<lparr>tr_type = ''tool_result'', tool_use_id = ''tool-1'',
                       tr_content = ''pong''\<rparr>]\<rparr>],
             answer_parts = [], thinking_parts = [], yielded = []\<rparr>
   \<and> tool_outputs (fake_env (const_tool ''pong'') no_json)
        (finalized_tool_uses (events tool_round)) \<lparr>streams = [text_round], called = []\<rparr>
     = (Inr [''pong''], \<lparr>streams = [text_round], called = [(''echo'', JDict [(''x'', JInt 1)])]\<rparr>)"
proof -
  let ?env = "fake_env (const_tool ''pong'') no_json"
  let ?st = "initial_state \<lparr>streams = [tool_round, text_round], called = []\<rparr> user_hi"
  let ?next = "\<lparr>world = \<lparr>streams = [text_round], called = [(''echo'', JDict [(''x'', JInt 1)])]\<rparr>,
             conversation = user_hi
               @ [\<lparr>role = ''assistant'', content = BlockContent []\<rparr>,
                  \<lparr>role = ''user'', content = ResultContent
                     [\<lparr>tr_type = ''tool_result'', tool_use_id = ''tool-1'',
                       tr_content = ''pong''\<rparr>]\<rparr>],
             answer_parts = [], thinking_parts = [], yielded = []\<rparr>"
  have h1: "messages_stream ?env (world ?st) [] (conversation ?st)
      = (tool_round, \<lparr>streams = [text_round], called = []\<rparr>)"
    by (simp add: fake_env_def initial_state_def)
  have f: "finalized_tool_uses (events tool_round)
      = [tool_use_block ''tool-1'' ''echo'' (JDict [(''x'', JInt 1)])]"
    by (simp add: finalized_tool_uses_def finalized_tool_use_def tool_round_def fake_stream_def
          stop_event_def tool_use_block_def)
  have h2: "finalized_tool_uses (events tool_round) \<noteq> []"
    by (simp add: f)
  have r: "round_step ?env False False [] ?st = Next ?next"
    by code_simp
  from tool_results_one_message [OF h1 h2, of False False]
  obtain outs w' where
    o: "tool_outputs ?env (finalized_tool_uses (events tool_round))
          \<lparr>streams = [text_round], called = []\<rparr> = (Inr outs, w')"
    and w: "world ?next = w'"
    and c: "conversation ?next = conversation ?st
               @ [\<lparr>role = ''assistant'', content = BlockContent []\<rparr>,
                  \<lparr>role = ''user'', content = ResultContent
                     (map2 (\<lambda>tool_use s.
                              \<lparr>tr_type = ''tool_result'', tool_use_id = cb_id tool_use,
                               tr_content =
                                 (if s \<noteq> [] then s else ''No content returned by tool.'')\<rparr>)
                        (finalized_tool_uses (events tool_round)) outs)\<rparr>]"
    and len: "length outs = length (finalized_tool_uses (events tool_round))"
    unfolding r by (auto simp: tool_round_def fake_stream_def)
  from len obtain s where outs: "outs = [s]"
    unfolding f by (cases outs) auto
  from c have "s = ''pong''"
    unfolding f outs
    by (auto simp: initial_state_def tool_use_block_def split: if_splits)
  with o w outs have "tool_outputs ?env (finalized_tool_uses (events tool_round))
          \<lparr>streams = [text_round], called = []\<rparr>
      = (Inr [''pong''], \<lparr>streams = [text_round], called = [(''echo'', JDict [(''x'', JInt 1)])]\<rparr>)"
    by simp
  with h1 f r show ?thesis by simp
qed

text \<open>
  C3, as stated, fails for a round whose tool request makes the executor raise (here the
  \<^verbatim>\<open>call_tool\<close> of \<^verbatim>\<open>EmptyMCPClient\<close>): the request is aborted, and the conversation
  has gained the assistant message but no user message.
\<close>

theorem tool_failure_no_user_message_counterexample:
  "finalized_tool_uses (events tool_round)
     = [tool_use_block ''tool-1'' ''echo'' (JDict [(''x'', JInt 1)])]
   \<and> round_step (fake_env raising_tool no_json) False False []
        (initial_state \<lparr>streams = [tool_round, text_round], called = []\<rparr> user_hi)
     = Abort (ToolExecutorError ''call_tool should not be invoked when no tools are available'')
         \<lparr>world = \<lparr>streams = [text_round], called = [(''echo'', JDict [(''x'', JInt 1)])]\<rparr>,
          conversation = user_hi @ [\<lparr>role = ''assistant'', content = BlockContent []\<rparr>],
          answer_parts = [], thinking_parts = [], yielded = []\<rparr>"
  by code_simp

text \<open>
  C2 (as amended). In a round that runs to its end (its stream and final message arrive,
  every tool call returns, and \<^verbatim>\<open>json.loads\<close> raises nothing but the \<^verbatim>\<open>JSONDecodeError\<close>
  that the agent catches), the user message appended to the conversation holds, for each
  invocation in order, a tool result whose content is the raw string the executor
  returned when that string is not empty, and the fixed text
  \<^verbatim>\<open>No content returned by tool.\<close> when it is empty. Whether the string decodes to a
  value or is rejected with \<^verbatim>\<open>JSONDecodeError\<close> plays no part.
\<close>

theorem tool_result_content:
  assumes "messages_stream env (world st) tools (conversation st) = (reply, w)"
    and "stream_error reply = None" and "final_message reply = Inr blocks"
    and "finalized_tool_uses (events reply) \<noteq> []"
    and "tool_outputs env (finalized_tool_uses (events reply)) w = (Inr outs, w')"
  shows "\<exists>st'.
      round_step env sm logs tools st = Next st'
    \<and> world st' = w'
    \<and> length outs = length (finalized_tool_uses (events reply))
    \<and> conversation st' = conversation st
         @ [\<lparr>role = ''assistant'', content = BlockContent blocks\<rparr>,
            \<lparr>role = ''user'', content = ResultContent
               (map2 (\<lambda>tool_use s.
                        \<lparr>tr_type = ''tool_result'', tool_use_id = cb_id tool_use,
                         tr_content = (if s \<noteq> [] then s else ''No content returned by tool.'')\<rparr>)
                  (finalized_tool_uses (events reply)) outs)\<rparr>]"
proof -
  let ?reqs = "finalized_tool_uses (events reply)"
  let ?st2 = "after_final_message blocks (after_stream sm (events reply) w st)"
  have w2: "world ?st2 = w" by (simp add: after_fields)
  from run_tools_outputs [where env=env and reqs="?reqs" and st="?st2"
        and sm=sm and logs=logs and acc="[]"] assms(5)
  obtain st3 where run: "run_tools env sm logs ?reqs [] ?st2
        = (Inr (map2 make_tool_result ?reqs outs), st3)"
    and w3: "world st3 = w'" and len: "length outs = length ?reqs"
    unfolding w2 by auto
  have c3: "conversation st3 = conversation ?st2"
    using run_tools_conversation [where env=env and reqs="?reqs" and st="?st2"
        and sm=sm and logs=logs and acc="[]"] run
    by simp
  have mk: "make_tool_result = (\<lambda>tool_use s.
                        \<lparr>tr_type = ''tool_result'', tool_use_id = cb_id tool_use,
                         tr_content = (if s \<noteq> [] then s else ''No content returned by tool.'')\<rparr>)"
    by (simp add: fun_eq_iff make_tool_result_def)
  have "round_step env sm logs tools st = Next (after_tools (map2 make_tool_result ?reqs outs) st3)"
    unfolding round_step_cases [OF assms(1)]
    using assms(2,3,4) run by (simp add: Let_def)
  then show ?thesis
    using w3 len c3 unfolding mk by (simp add: after_fields)
qed

theorem tool_result_content_witness:
  "messages_stream (fake_env (const_tool ''pong'') no_json)
       (world (initial_state \<lparr>streams = [tool_round, text_round], called = []\<rparr> user_hi)) []
       (conversation (initial_state \<lparr>streams = [tool_round, text_round], called = []\<rparr> user_hi))
     = (tool_round, \<lparr>streams = [text_round], called = []\<rparr>)
   \<and> stream_error tool_round = None \<and> final_message tool_round = Inr []
   \<and> tool_outputs (fake_env (const_tool ''pong'') no_json) (finalized_tool_uses (events tool_round))
       \<lparr>streams = [text_round], called = []\<rparr>
     = (Inr [''pong''], \<lparr>streams = [text_round], called = [(''echo'', JDict [(''x'', JInt 1)])]\<rparr>)
   \<and> (\<exists>st'.
        round_step (fake_env (const_tool ''pong'') no_json) True True []
          (initial_state \<lparr>streams = [tool_round, text_round], called = []\<rparr> user_hi) = Next st'
      \<and> conversation st' = user_hi
           @ [\<lparr>role = ''assistant'', content = BlockContent []\<rparr>,
              \<lparr>role = ''user'', content = ResultContent
                 [\<lparr>tr_type = ''tool_result'', tool_use_id = ''tool-1'', tr_content = ''pong''\<rparr>]\<rparr>])"
proof -
  let ?env = "fake_env (const_tool ''pong'') no_json"
  let ?st = "initial_state \<lparr>streams = [tool_round, text_round], called = []\<rparr> user_hi"
  have h1: "messages_stream ?env (world ?st) [] (conversation ?st)
      = (tool_round, \<lparr>streams = [text_round], called = []\<rparr>)"
    by (simp add: fake_env_def initial_state_def)
  have h2: "stream_error tool_round = None" and h3: "final_message tool_round = Inr []"
    by (simp_all add: tool_round_def fake_stream_def)
  have f: "finalized_tool_uses (events tool_round)
      = [tool_use_block ''tool-1'' ''echo'' (JDict [(''x'', JInt 1)])]"
    by (simp add: finalized_tool_uses_def finalized_tool_use_def tool_round_def fake_stream_def
          stop_event_def tool_use_block_def)
  have h4: "finalized_tool_uses (events tool_round) \<noteq> []"
    by (simp add: f)
  have h5: "tool_outputs ?env (finalized_tool_uses (events tool_round))
       \<lparr>streams = [text_round], called = []\<rparr>
     = (Inr [''pong''], \<lparr>streams = [text_round], called = [(''echo'', JDict [(''x'', JInt 1)])]\<rparr>)"
    unfolding f
    by (simp add: fake_env_def const_tool_def no_json_def tool_use_block_def tool_args_def)
  from tool_result_content [OF h1 h2 h3 h4 h5, of True True]
  obtain st' where a: "round_step ?env True True [] ?st = Next st'"
    and c: "conversation st' = conversation ?st
         @ [\<lparr>role = ''assistant'', content = BlockContent []\<rparr>,
            \<lparr>role = ''user'', content = ResultContent
               (map2 (\<lambda>tool_use s.
                        \<lparr>tr_type = ''tool_result'', tool_use_id = cb_id tool_use,
                         tr_content = (if s \<noteq> [] then s else ''No content returned by tool.'')\<rparr>)
                  (finalized_tool_uses (events tool_round)) [''pong''])\<rparr>]"
    by blast
  have c': "conversation st' = user_hi
           @ [\<lparr>role = ''assistant'', content = BlockContent []\<rparr>,
              \<lparr>role = ''user'', content = ResultContent
                 [\<lparr>tr_type = ''tool_result'', tool_use_id = ''tool-1'', tr_content = ''pong''\<rparr>]\<rparr>]"
    using c unfolding f by (simp add: initial_state_def tool_use_block_def)
  show ?thesis
    using h1 h2 h3 h5 a c' by blast
qed

text \<open>
  C2, as stated, fails when the executor returns the empty string: the tool result that
  is appended has the fixed text as its content, not the empty string.
\<close>

theorem empty_tool_output_counterexample:
  "tool_outputs (fake_env (const_tool []) no_json) (finalized_tool_uses (events tool_round))
       \<lparr>streams = [text_round], called = []\<rparr>
     = (Inr [[]], \<lparr>streams = [text_round], called = [(''echo'', JDict [(''x'', JInt 1)])]\<rparr>)
   \<and> round_step (fake_env (const_tool []) no_json) False False []
        (initial_state \<lparr>streams = [tool_round, text_round], called = []\<rparr> user_hi)
     = Next \<lparr>world = \<lparr>streams = [text_round], called = [(''echo'', JDict [(''x'', JInt 1)])]\<rparr>,
             conversation = user_hi
               @ [\<lparr>role = ''assistant'', content = BlockContent []\<rparr>,
                  \<lparr>role = ''user'', content = ResultContent
                     [\<lparr>tr_type = ''tool_result'', tool_use_id = ''tool-1'',
                       tr_content = ''No content returned by tool.''\<rparr>]\<rparr>],
             answer_parts = [], thinking_parts = [], yielded = []\<rparr>"
  by code_simp


subsection \<open>Joining and trimming\<close>

lemma join_Cons: "join sep (x # xs) = x @ (if xs = [] then [] else sep @ join sep xs)"
  by (cases xs) simp_all

lemma lstrip_nonspace: "s \<noteq> [] \<Longrightarrow> \<not> is_space (hd s) \<Longrightarrow> lstrip s = s"
  by (cases s) (simp_all add: lstrip_def)

lemma rstrip_append:
  assumes "s \<noteq> []" and "\<not> is_space (last s)"
  shows "rstrip (s @ t) = s @ rstrip t"
proof -
  from assms have d: "dropWhile is_space (rev s) = rev s"
    by (cases s rule: rev_cases) simp_all
  show ?thesis
  proof (cases "\<forall>c \<in> set (rev t). is_space c")
    case True
    then have "dropWhile is_space (rev t) = []" by simp
    with True d show ?thesis
      by (simp add: rstrip_def dropWhile_append)
  next
    case False
    then show ?thesis
      by (auto simp add: rstrip_def dropWhile_append)
  qed
qed

lemma strip_snoc_space:
  assumes "is_space c"
  shows "strip (s @ [c]) = strip s"
proof (cases "\<forall>x \<in> set s. is_space x")
  case True
  then have "lstrip (s @ [c]) = []" and "lstrip s = []"
    using assms by (simp_all add: lstrip_def)
  then show ?thesis
    by (simp add: strip_def)
next
  case False
  then have "lstrip (s @ [c]) = lstrip s @ [c]"
    by (auto simp: lstrip_def dropWhile_append)
  with assms show ?thesis
    by (simp add: strip_def rstrip_def)
qed

lemma final_answer_thoughts:
  assumes "thinking \<noteq> []"
  shows "final_answer thinking answer =
     ''**Thoughts:**'' @ [CHR 0x0A, CHR 0x0A] @ concat thinking
       @ [CHR 0x0A, CHR 0x0A] @ ''---'' @ [CHR 0x0A, CHR 0x0A] @ ''**Answer:**''
       @ rstrip ([CHR 0x0A, CHR 0x0A]
           @ (if filter (\<lambda>part. part \<noteq> []) answer = [] then []
              else [CHR 0x0A, CHR 0x0A]
                @ join [CHR 0x0A, CHR 0x0A] (filter (\<lambda>part. part \<noteq> []) answer)))"
proof -
  let ?head = "''**Thoughts:**'' @ [CHR 0x0A, CHR 0x0A] @ concat thinking
       @ [CHR 0x0A, CHR 0x0A] @ ''---'' @ [CHR 0x0A, CHR 0x0A] @ ''**Answer:**''"
  let ?tail = "[CHR 0x0A, CHR 0x0A]
           @ (if filter (\<lambda>part. part \<noteq> []) answer = [] then []
              else [CHR 0x0A, CHR 0x0A]
                @ join [CHR 0x0A, CHR 0x0A] (filter (\<lambda>part. part \<noteq> []) answer))"
  have j: "final_answer thinking answer = strip (?head @ ?tail)"
    using assms by (simp add: final_answer_def join_Cons)
  have l: "lstrip (?head @ ?tail) = ?head @ ?tail"
    by (rule lstrip_nonspace) (simp_all add: is_space_def)
  have r: "rstrip (?head @ ?tail) = ?head @ rstrip ?tail"
    by (rule rstrip_append) (simp_all add: is_space_def)
  show ?thesis
    unfolding j strip_def l r by simp
qed

lemma final_answer_plain:
  "final_answer [] answer = strip (join [CHR 0x0A, CHR 0x0A] (filter (\<lambda>part. part \<noteq> []) answer))"
  by (simp add: final_answer_def)

subsection \<open>The loop\<close>

lemma finalize_fields:
  "world (finalize sm st) = world st"
  "thinking_parts (finalize sm st) = thinking_parts st"
  "answer_parts (finalize sm st) = answer_parts st"
  "conversation (finalize sm st) = conversation st"
  "yielded (finalize False st) = yielded st @ [JStr (final_answer (thinking_parts st) (answer_parts st))]"
  "yielded (finalize True st) = yielded st @ [finish_delta]"
  by (simp_all add: finalize_def)

lemma round_step_collected_yielded:
  "(case round_step env False logs tools st of
      Next s \<Rightarrow> yielded s = yielded st
    | Break s \<Rightarrow> yielded s = yielded st
    | Abort e s \<Rightarrow> yielded s = yielded st)"
proof (cases "messages_stream env (world st) tools (conversation st)")
  case (Pair reply w)
  show ?thesis
    unfolding round_step_cases [OF Pair]
    using run_tools_collected_yielded [where env=env and logs=logs
        and reqs="finalized_tool_uses (events reply)" and acc="[]"]
    by (auto simp: Let_def after_fields split: option.splits sum.splits prod.splits
          dest!: arg_cong [where f=snd])
qed

lemma ask_loop_collected:
  assumes "ask_loop env sm logs tools st = Some y"
  shows "sm = False \<longrightarrow> fst y = Returned \<longrightarrow>
     yielded (snd y) = yielded st
       @ [JStr (final_answer (thinking_parts (snd y)) (answer_parts (snd y)))]"
  using assms
proof (induction env sm logs tools st y rule: ask_loop.raw_induct [rotated 1, consumes 1])
  case (1 f env sm logs tools st y)
  show ?case
  proof (intro impI)
    assume sm: "sm = False" and ret: "fst y = Returned"
    note y = round_step_collected_yielded [where env=env and logs=logs and tools=tools and st=st]
    show "yielded (snd y) = yielded st
       @ [JStr (final_answer (thinking_parts (snd y)) (answer_parts (snd y)))]"
    proof (cases "round_step env False logs tools st")
      case (Next s)
      with 1(2) sm have "f env False logs tools s = Some y" by simp
      from 1(1) [OF this] ret have "yielded (snd y) = yielded s
         @ [JStr (final_answer (thinking_parts (snd y)) (answer_parts (snd y)))]"
        by simp
      with y Next show ?thesis by simp
    next
      case (Break s)
      with 1(2) sm have "y = (Returned, finalize False s)" by simp
      with y Break show ?thesis by (simp add: finalize_fields)
    next
      case (Abort e s)
      with 1(2) sm ret show ?thesis by auto
    qed
  qed
qed


text \<open>
  C8. When \<^verbatim>\<open>ask_stream\<close> returns in collected mode, it has yielded exactly one value:
  the composite string built from the thinking parts and the answer parts captured during
  the interaction. If there is any thinking part, the composite begins with the label
  \<^verbatim>\<open>**Thoughts:**\<close>, a blank line, the concatenated thinking parts, the separator
  \<^verbatim>\<open>---\<close> between blank lines and the label \<^verbatim>\<open>**Answer:**\<close>; then come the non-empty
  answer parts joined by blank lines; the whole is trimmed, which leaves the labelled
  head as it is and removes trailing white space. With no thinking part the composite is
  the trimmed join of the non-empty answer parts.
\<close>

theorem collected_emits_one_composite:
  assumes "ask_stream env False messages False logs w = Some (out, Returned, w')"
  shows "\<exists>defs w1 st'.
      list_tools env w = (Inr defs, w1)
    \<and> ask_loop env False logs (map to_anthropic defs) (initial_state w1 messages)
          = Some (Returned, st')
    \<and> world st' = w'
    \<and> out = [JStr (final_answer (thinking_parts st') (answer_parts st'))]
    \<and> final_answer (thinking_parts st') (answer_parts st') =
        (if thinking_parts st' \<noteq> []
         then ''**Thoughts:**'' @ [CHR 0x0A, CHR 0x0A] @ concat (thinking_parts st')
           @ [CHR 0x0A, CHR 0x0A] @ ''---'' @ [CHR 0x0A, CHR 0x0A] @ ''**Answer:**''
           @ rstrip ([CHR 0x0A, CHR 0x0A]
               @ (if filter (\<lambda>part. part \<noteq> []) (answer_parts st') = [] then []
                  else [CHR 0x0A, CHR 0x0A]
                    @ join [CHR 0x0A, CHR 0x0A] (filter (\<lambda>part. part \<noteq> []) (answer_parts st'))))
         else strip (join [CHR 0x0A, CHR 0x0A] (filter (\<lambda>part. part \<noteq> []) (answer_parts st'))))"
proof -
  obtain r w1 where lt: "list_tools env w = (r, w1)"
    by (cases "list_tools env w")
  from assms lt obtain defs where r: "r = Inr defs"
    by (cases r) (simp_all add: ask_stream_def)
  from assms lt r obtain st' where
    loop: "ask_loop env False logs (map to_anthropic defs) (initial_state w1 messages)
        = Some (Returned, st')"
    and out: "out = yielded st'" and w': "w' = world st'"
    by (auto simp: ask_stream_def)
  from ask_loop_collected [OF loop]
  have y: "yielded st' = [JStr (final_answer (thinking_parts st') (answer_parts st'))]"
    by (simp add: initial_state_def)
  have f: "final_answer (thinking_parts st') (answer_parts st') =
        (if thinking_parts st' \<noteq> []
         then ''**Thoughts:**'' @ [CHR 0x0A, CHR 0x0A] @ concat (thinking_parts st')
           @ [CHR 0x0A, CHR 0x0A] @ ''---'' @ [CHR 0x0A, CHR 0x0A] @ ''**Answer:**''
           @ rstrip ([CHR 0x0A, CHR 0x0A]
               @ (if filter (\<lambda>part. part \<noteq> []) (answer_parts st') = [] then []
                  else [CHR 0x0A, CHR 0x0A]
                    @ join [CHR 0x0A, CHR 0x0A] (filter (\<lambda>part. part \<noteq> []) (answer_parts st'))))
         else strip (join [CHR 0x0A, CHR 0x0A] (filter (\<lambda>part. part \<noteq> []) (answer_parts st'))))"
  proof (cases "thinking_parts st' = []")
    case True
    then show ?thesis by (simp add: final_answer_plain)
  next
    case False
    show ?thesis
      by (simp only: final_answer_thoughts [OF False] False not_False_eq_True if_True)
  qed
  from lt r loop out w' y f show ?thesis by blast
qed

theorem collected_emits_one_composite_witness:
  "ask_stream (fake_env (const_tool []) no_json) False user_hi False True
       \<lparr>streams = [thinking_round], called = []\<rparr>
     = Some ([JStr (''**Thoughts:**'' @ [CHR 0x0A, CHR 0x0A] @ ''inner thought''
               @ [CHR 0x0A, CHR 0x0A] @ ''---'' @ [CHR 0x0A, CHR 0x0A] @ ''**Answer:**''
               @ [CHR 0x0A, CHR 0x0A, CHR 0x0A, CHR 0x0A] @ ''final answer'')],
             Returned, \<lparr>streams = [], called = []\<rparr>)
   \<and> final_answer [''inner thought''] [''final answer'']
     = ''**Thoughts:**'' @ [CHR 0x0A, CHR 0x0A] @ ''inner thought''
         @ [CHR 0x0A, CHR 0x0A] @ ''---'' @ [CHR 0x0A, CHR 0x0A] @ ''**Answer:**''
         @ [CHR 0x0A, CHR 0x0A, CHR 0x0A, CHR 0x0A] @ ''final answer''"
proof -
  let ?env = "fake_env (const_tool []) no_json"
  let ?w = "\<lparr>streams = [thinking_round], called = []\<rparr>"
  let ?out = "[JStr (''**Thoughts:**'' @ [CHR 0x0A, CHR 0x0A] @ ''inner thought''
               @ [CHR 0x0A, CHR 0x0A] @ ''---'' @ [CHR 0x0A, CHR 0x0A] @ ''**Answer:**''
               @ [CHR 0x0A, CHR 0x0A, CHR 0x0A, CHR 0x0A] @ ''final answer'')]"
  have h: "ask_stream ?env False user_hi False True ?w
      = Some (?out, Returned, \<lparr>streams = [], called = []\<rparr>)"
    by code_simp
  from collected_emits_one_composite [OF h]
  obtain defs w1 st' where
    lt: "list_tools ?env ?w = (Inr defs, w1)"
    and loop: "ask_loop ?env False True (map to_anthropic defs) (initial_state w1 user_hi)
          = Some (Returned, st')"
    and out: "?out = [JStr (final_answer (thinking_parts st') (answer_parts st'))]"
    by blast
  from lt have d: "defs = [\<lparr>name = ''echo'', description = ''test tool'',
               input_schema = JDict [(''type'', JStr ''object'')]\<rparr>]" and w1: "w1 = ?w"
    by (simp_all add: fake_env_def)
  have "ask_loop ?env False True (map to_anthropic defs) (initial_state w1 user_hi)
      = Some (Returned,
          \<lparr>world = \<lparr>streams = [], called = []\<rparr>,
           conversation = user_hi @ [\<lparr>role = ''assistant'',
              content = BlockContent [fake_block ''text'' (Some ''final answer'')]\<rparr>],
           answer_parts = [''final answer''], thinking_parts = [''inner thought''],
           yielded = ?out\<rparr>)"
    unfolding d w1 by code_simp
  with loop have t: "thinking_parts st' = [''inner thought'']"
    and a: "answer_parts st' = [''final answer'']"
    by auto
  from out have "final_answer [''inner thought''] [''final answer'']
     = ''**Thoughts:**'' @ [CHR 0x0A, CHR 0x0A] @ ''inner thought''
         @ [CHR 0x0A, CHR 0x0A] @ ''---'' @ [CHR 0x0A, CHR 0x0A] @ ''**Answer:**''
         @ [CHR 0x0A, CHR 0x0A, CHR 0x0A, CHR 0x0A] @ ''final answer''"
    unfolding t a by simp
  with h show ?thesis by (rule conjI)
qed


lemma loop_step:
  "ask_loop env sm logs tools st =
    (case round_step env sm logs tools st of
       Next st' \<Rightarrow> ask_loop env sm logs tools st'
     | Break st' \<Rightarrow> Some (Returned, finalize sm st')
     | Abort e st' \<Rightarrow> Some (Raised e, st'))"
  by (rule ask_loop.simps)









subsection \<open>A round without thinking and without tool request\<close>

lemma on_event_plain:
  assumes "\<not> thinking_event ev"
    and "\<forall>i. block_types rs i \<noteq> Some (Some ''thinking'')"
    and "finalized_tool_use ev = []"
  shows "\<forall>i. block_types (on_event sm ev rs) i \<noteq> Some (Some ''thinking'')"
    and "rs_thinking (on_event sm ev rs) = rs_thinking rs"
    and "rs_yielded (on_event sm ev rs) = rs_yielded rs
          @ (if sm
             then (if fragment_of ev \<noteq> [] then [content_delta (fragment_of ev)] else [])
                  @ (if is_block_stop ev then [content_delta [CHR 0x0A]] else [])
             else [])"
  using assms
  by (auto simp: on_event_def on_block_start_def on_block_delta_def on_block_stop_def
        on_tool_use_stop_def thinking_event_def fragment_of_def is_block_stop_def
        finalized_tool_use_def block_type_of_def Let_def
        split: option.splits if_splits)

lemma delta_content_simps:
  "delta_content (content_delta s) = Some s"
  "delta_content finish_delta = None"
  by (simp_all add: delta_content_def content_delta_def finish_delta_def dict_get_def)

lemma live_content_append: "live_content (xs @ ys) = live_content xs @ live_content ys"
  by (simp add: live_content_def List.map_filter_def)

lemma live_content_single: "live_content [content_delta s] = s"
  by (simp add: live_content_def List.map_filter_def delta_content_simps)

lemma live_content_finish: "live_content [finish_delta] = []"
  by (simp add: live_content_def List.map_filter_def delta_content_simps)

lemma on_events_plain_thinking:
  assumes "list_all (\<lambda>ev. \<not> thinking_event ev) evs"
    and "\<forall>i. block_types rs i \<noteq> Some (Some ''thinking'')"
    and "finalized_tool_uses evs = []"
  shows "rs_thinking (on_events sm evs rs) = rs_thinking rs"
  using assms
proof (induction evs arbitrary: rs)
  case Nil
  then show ?case by simp
next
  case (Cons ev evs)
  from Cons.prems have t: "\<not> thinking_event ev"
    and ts: "list_all (\<lambda>ev. \<not> thinking_event ev) evs"
    and f: "finalized_tool_use ev = []" and fs: "finalized_tool_uses evs = []"
    by (simp_all add: finalized_tool_uses_def)
  note ev = on_event_plain [OF t Cons.prems(2) f, where sm=sm]
  show ?case
    using Cons.IH [OF ts ev(1) fs] ev(2) by simp
qed

lemma on_events_plain_live:
  assumes "list_all (\<lambda>ev. \<not> thinking_event ev) evs"
    and "\<forall>i. block_types rs i \<noteq> Some (Some ''thinking'')"
    and "finalized_tool_uses evs = []"
  shows "live_content (rs_yielded (on_events True evs rs))
        = live_content (rs_yielded rs)
          @ concat (map (\<lambda>ev. fragment_of ev @ (if is_block_stop ev then [CHR 0x0A] else [])) evs)"
  using assms
proof (induction evs arbitrary: rs)
  case Nil
  then show ?case by simp
next
  case (Cons ev evs)
  from Cons.prems have t: "\<not> thinking_event ev"
    and ts: "list_all (\<lambda>ev. \<not> thinking_event ev) evs"
    and f: "finalized_tool_use ev = []" and fs: "finalized_tool_uses evs = []"
    by (simp_all add: finalized_tool_uses_def)
  note ev = on_event_plain [OF t Cons.prems(2) f, where sm=True]
  have c: "live_content (rs_yielded (on_event True ev rs))
      = live_content (rs_yielded rs) @ fragment_of ev @ (if is_block_stop ev then [CHR 0x0A] else [])"
    by (simp add: ev(3) live_content_append live_content_single)
       (simp add: live_content_def)
  show ?case
    using Cons.IH [OF ts ev(1) fs] c by simp
qed

lemma body_text:
  "list_all (\<lambda>ev. \<not> is_block_stop ev) body \<Longrightarrow>
     concat (map (\<lambda>ev. fragment_of ev @ (if is_block_stop ev then [CHR 0x0A] else [])) body)
       = streamed_text body"
  by (induction body) (simp_all add: streamed_text_def)

lemma tail_text:
  "list_all (\<lambda>ev. fragment_of ev = []) tail \<Longrightarrow>
     concat (map (\<lambda>ev. fragment_of ev @ (if is_block_stop ev then [CHR 0x0A] else [])) tail)
       = replicate (length (filter is_block_stop tail)) (CHR 0x0A)
     \<and> streamed_text tail = []"
  by (induction tail) (simp_all add: streamed_text_def)

lemma strip_newlines: "strip (s @ replicate k (CHR 0x0A)) = strip s"
proof (induction k)
  case 0
  then show ?case by simp
next
  case (Suc k)
  have "strip (s @ replicate (Suc k) (CHR 0x0A)) = strip ((s @ replicate k (CHR 0x0A)) @ [CHR 0x0A])"
    by (simp add: replicate_append_same)
  also have "\<dots> = strip (s @ replicate k (CHR 0x0A))"
    by (rule strip_snoc_space) (simp add: is_space_def)
  finally show ?case using Suc by simp
qed

lemma text_blocks_nonempty: "filter (\<lambda>part. part \<noteq> []) (text_blocks blocks) = text_blocks blocks"
  by (simp add: text_blocks_def filter_map comp_def) (induction blocks, simp_all)

lemma join_at_most_one: "length xs \<le> 1 \<Longrightarrow> join sep xs = concat xs"
proof (cases xs)
  case Nil
  then show ?thesis by simp
next
  case (Cons x ys)
  assume "length xs \<le> 1"
  with Cons have "ys = []" by simp
  with Cons show ?thesis by simp
qed


lemma plain_round_loop:
  assumes "messages_stream env w1 tools messages = (reply, w2)"
    and "stream_error reply = None" and "final_message reply = Inr blocks"
    and "finalized_tool_uses (events reply) = []"
  shows "ask_loop env sm logs tools (initial_state w1 messages)
     = Some (Returned, finalize sm
         (after_final_message blocks (after_stream sm (events reply) w2 (initial_state w1 messages))))"
proof -
  let ?st0 = "initial_state w1 messages"
  have h: "messages_stream env (world ?st0) tools (conversation ?st0) = (reply, w2)"
    using assms(1) by (simp add: initial_state_def)
  have "round_step env sm logs tools ?st0
      = Break (after_final_message blocks (after_stream sm (events reply) w2 ?st0))"
    unfolding round_step_cases [OF h] using assms(2,3,4) by (simp add: Let_def)
  then show ?thesis
    by (subst loop_step) simp
qed

text \<open>
  C1 (as amended). Take an interaction whose round produces no tool request and brings no
  thinking (no thinking block starts, no fragment is a thinking fragment, the final
  message has no thinking text), in which every \<^verbatim>\<open>content_block_stop\<close> comes after the
  last text fragment (as it does when one text block is streamed), and whose final
  message carries the streamed text in at most one text block. The events are otherwise
  arbitrary. Then the live run and the collected run both return; the \<^verbatim>\<open>content\<close> fields
  of the live deltas concatenate to the streamed text followed by one newline for each
  block stop, and the collected output is that concatenation trimmed of surrounding
  white space.
\<close>

theorem collected_is_trimmed_live_text:
  assumes "list_tools env w = (Inr defs, w1)"
    and "messages_stream env w1 (map to_anthropic defs) messages = (reply, w2)"
    and "stream_error reply = None" and "final_message reply = Inr blocks"
    and "finalized_tool_uses (events reply) = []"
    and "list_all (\<lambda>ev. \<not> thinking_event ev) (events reply)"
    and "thinking_blocks blocks = []"
    and "events reply = body @ tail"
    and "list_all (\<lambda>ev. \<not> is_block_stop ev) body"
    and "list_all (\<lambda>ev. fragment_of ev = []) tail"
    and "length (text_blocks blocks) \<le> 1"
    and "concat (text_blocks blocks) = streamed_text (events reply)"
  shows "\<exists>live.
      ask_stream env False messages True logs w = Some (live, Returned, w2)
    \<and> live_content live
        = streamed_text (events reply) @ replicate (length (filter is_block_stop tail)) (CHR 0x0A)
    \<and> ask_stream env False messages False logs w
        = Some ([JStr (strip (live_content live))], Returned, w2)"
proof -
  let ?tools = "map to_anthropic defs"
  let ?st0 = "initial_state w1 messages"
  let ?st2 = "\<lambda>sm. after_final_message blocks (after_stream sm (events reply) w2 ?st0)"
  let ?live = "yielded (finalize True (?st2 True))"
  let ?k = "length (filter is_block_stop tail)"
  have types: "\<forall>i. block_types \<lparr>block_types = (\<lambda>_. None), rs_thinking = thinking_parts ?st0,
        tool_requests = [], rs_yielded = yielded ?st0\<rparr> i \<noteq> Some (Some ''thinking'')"
    by simp
  note loop = plain_round_loop [OF assms(2,3,4,5), where logs=logs]
  have l: "ask_stream env False messages True logs w = Some (?live, Returned, w2)"
    using assms(1) loop [where sm=True]
    by (simp add: ask_stream_def finalize_fields after_fields)
  have "live_content ?live
      = concat (map (\<lambda>ev. fragment_of ev @ (if is_block_stop ev then [CHR 0x0A] else []))
          (events reply))"
    using on_events_plain_live [OF assms(6) types assms(5)]
    by (simp add: finalize_fields after_final_message_def after_stream_def round_events_def
          Let_def live_content_append live_content_finish)
       (simp add: initial_state_def live_content_def)
  also have "\<dots> = streamed_text body @ replicate ?k (CHR 0x0A)"
    unfolding assms(8) using body_text [OF assms(9)] tail_text [OF assms(10)] by simp
  finally have lc0: "live_content ?live = streamed_text body @ replicate ?k (CHR 0x0A)" .
  have st: "streamed_text (events reply) = streamed_text body"
    unfolding assms(8) using tail_text [OF assms(10)] by (simp add: streamed_text_def)
  from lc0 st have lc: "live_content ?live = streamed_text (events reply) @ replicate ?k (CHR 0x0A)"
    by simp
  have t: "thinking_parts (?st2 False) = []"
    using on_events_plain_thinking [OF assms(6) types assms(5), where sm=False] assms(7)
    by (simp add: after_final_message_def after_stream_def round_events_def Let_def
          initial_state_def)
  have a: "answer_parts (?st2 False) = text_blocks blocks"
    by (simp add: after_final_message_def after_stream_def Let_def initial_state_def)
  have y: "yielded (?st2 False) = []"
    by (simp add: after_fields initial_state_def)
  have fa: "final_answer [] (text_blocks blocks) = strip (streamed_text (events reply))"
    using assms(12) join_at_most_one [OF assms(11)]
    by (simp add: final_answer_plain text_blocks_nonempty)
  have c: "ask_stream env False messages False logs w
      = Some ([JStr (strip (streamed_text (events reply)))], Returned, w2)"
    using assms(1) loop [where sm=False]
    by (simp add: ask_stream_def finalize_fields after_fields t a y fa)
       (simp add: initial_state_def)
  have "strip (live_content ?live) = strip (streamed_text (events reply))"
    unfolding lc by (rule strip_newlines)
  with l lc c show ?thesis by simp
qed

theorem collected_is_trimmed_live_text_witness:
  "list_tools (fake_env (const_tool []) no_json) \<lparr>streams = [forty_two_round], called = []\<rparr>
     = (Inr [\<lparr>name = ''echo'', description = ''test tool'',
              input_schema = JDict [(''type'', JStr ''object'')]\<rparr>],
        \<lparr>streams = [forty_two_round], called = []\<rparr>)
   \<and> finalized_tool_uses (events forty_two_round) = []
   \<and> list_all (\<lambda>ev. \<not> thinking_event ev) (events forty_two_round)
   \<and> events forty_two_round = take 4 (events forty_two_round) @ drop 4 (events forty_two_round)
   \<and> list_all (\<lambda>ev. \<not> is_block_stop ev) (take 4 (events forty_two_round))
   \<and> list_all (\<lambda>ev. fragment_of ev = []) (drop 4 (events forty_two_round))
   \<and> text_blocks [fake_block ''text'' (Some ''42'')] = [''42'']
   \<and> streamed_text (events forty_two_round) = ''42''
   \<and> ask_stream (fake_env (const_tool []) no_json) False user_hi True True
        \<lparr>streams = [forty_two_round], called = []\<rparr>
     = Some ([content_delta ''4'', content_delta ''2'', content_delta [CHR 0x0A], finish_delta],
             Returned, \<lparr>streams = [], called = []\<rparr>)
   \<and> ask_stream (fake_env (const_tool []) no_json) False user_hi False True
        \<lparr>streams = [forty_two_round], called = []\<rparr>
     = Some ([JStr (strip (live_content
                [content_delta ''4'', content_delta ''2'', content_delta [CHR 0x0A], finish_delta]))],
             Returned, \<lparr>streams = [], called = []\<rparr>)"
proof -
  let ?env = "fake_env (const_tool []) no_json"
  let ?w = "\<lparr>streams = [forty_two_round], called = []\<rparr>"
  let ?defs = "[\<lparr>name = ''echo'', description = ''test tool'',
              input_schema = JDict [(''type'', JStr ''object'')]\<rparr>]"
  let ?blocks = "[fake_block ''text'' (Some ''42'')]"
  let ?body = "take 4 (events forty_two_round)"
  let ?tail = "drop 4 (events forty_two_round)"
  have h1: "list_tools ?env ?w = (Inr ?defs, ?w)"
    by (simp add: fake_env_def)
  have h2: "messages_stream ?env ?w (map to_anthropic ?defs) user_hi
      = (forty_two_round, \<lparr>streams = [], called = []\<rparr>)"
    by (simp add: fake_env_def)
  have h3: "stream_error forty_two_round = None"
    and h4: "final_message forty_two_round = Inr ?blocks"
    by (simp_all add: forty_two_round_def fake_stream_def)
  have h5: "finalized_tool_uses (events forty_two_round) = []" by code_simp
  have h6: "list_all (\<lambda>ev. \<not> thinking_event ev) (events forty_two_round)" by code_simp
  have h7: "thinking_blocks ?blocks = []" by code_simp
  have h8: "events forty_two_round = ?body @ ?tail" by simp
  have h9: "list_all (\<lambda>ev. \<not> is_block_stop ev) ?body" by code_simp
  have h10: "list_all (\<lambda>ev. fragment_of ev = []) ?tail" by code_simp
  have tb: "text_blocks ?blocks = [''42'']" by code_simp
  have sx: "streamed_text (events forty_two_round) = ''42''" by code_simp
  have h11: "length (text_blocks ?blocks) \<le> 1" by (simp add: tb)
  have h12: "concat (text_blocks ?blocks) = streamed_text (events forty_two_round)"
    by (simp add: tb sx)
  from collected_is_trimmed_live_text [OF h1 h2 h3 h4 h5 h6 h7 h8 h9 h10 h11 h12, of True]
  obtain live where l: "ask_stream ?env False user_hi True True ?w
        = Some (live, Returned, \<lparr>streams = [], called = []\<rparr>)"
    and c: "ask_stream ?env False user_hi False True ?w
        = Some ([JStr (strip (live_content live))], Returned, \<lparr>streams = [], called = []\<rparr>)"
    by blast
  have e: "ask_stream ?env False user_hi True True ?w
     = Some ([content_delta ''4'', content_delta ''2'', content_delta [CHR 0x0A], finish_delta],
             Returned, \<lparr>streams = [], called = []\<rparr>)"
    by code_simp
  with l have "live = [content_delta ''4'', content_delta ''2'', content_delta [CHR 0x0A], finish_delta]"
    by simp
  with c e h1 h5 h6 h8 h9 h10 tb sx show ?thesis by simp
qed

text \<open>
  C1, as stated, fails on the example of the specification (the question \<^verbatim>\<open>2+2?\<close>, one
  text block \<^verbatim>\<open>4\<close>, no tool use): the live deltas carry \<^verbatim>\<open>4\<close> and then the newline
  emitted at the end of the block, the collected output is \<^verbatim>\<open>4\<close>.
\<close>

theorem collected_not_live_concatenation_counterexample:
  "ask_stream (fake_env (const_tool []) no_json) False user_hi True True
        \<lparr>streams = [four_round], called = []\<rparr>
     = Some ([JDict [(''delta'', JDict [(''content'', JStr ''4'')])],
              JDict [(''delta'', JDict [(''content'', JStr [CHR 0x0A])])],
              JDict [(''delta'', JDict []), (''finish_reason'', JStr ''stop'')]],
             Returned, \<lparr>streams = [], called = []\<rparr>)
   \<and> live_content [JDict [(''delta'', JDict [(''content'', JStr ''4'')])],
                    JDict [(''delta'', JDict [(''content'', JStr [CHR 0x0A])])],
                    JDict [(''delta'', JDict []), (''finish_reason'', JStr ''stop'')]]
     = ''4'' @ [CHR 0x0A]
   \<and> ask_stream (fake_env (const_tool []) no_json) False user_hi False True
        \<lparr>streams = [four_round], called = []\<rparr>
     = Some ([JStr ''4''], Returned, \<lparr>streams = [], called = []\<rparr>)
   \<and> ''4'' \<noteq> ''4'' @ [CHR 0x0A]"
  by code_simp

end
